theory Spec2Isabelle
  imports Main "HOL-Library.Word" "HOL-Library.Monad_Syntax"
begin

unbundle bit_operations_syntax

section \<open>The hash abstraction of crypto/s2n\_hash.c\<close>

text \<open>
  The file crypto/s2n\_hash.c offers one digest interface over two backends: the
  low-level backend, which keeps the per-algorithm OpenSSL contexts inside the hash
  state, and the EVP backend, which owns two \<open>EVP_MD_CTX\<close> handles. The
  process-wide predicate \<open>s2n_is_in_fips_mode()\<close> is read by the code and never
  written; every function of the model that calls it takes its current answer as the
  argument \<open>fips\<close>.
\<close>

subsection \<open>Algorithms, errors and return codes\<close>

text \<open>
  The enumeration \<open>s2n_hash_algorithm\<close>. A C enumeration can hold a value that is
  none of its enumerators; every \<open>switch\<close> of the file has a \<open>default\<close> branch for
  that. \<open>S2N_HASH_OTHER n\<close> stands for such a tag.
\<close>

datatype s2n_hash_algorithm =
    S2N_HASH_NONE
  | S2N_HASH_MD5
  | S2N_HASH_SHA1
  | S2N_HASH_SHA224
  | S2N_HASH_SHA256
  | S2N_HASH_SHA384
  | S2N_HASH_SHA512
  | S2N_HASH_MD5_SHA1
  | S2N_HASH_OTHER nat

text \<open>
  Modelled from the spec: the macros \<open>eq_check\<close> and \<open>notnull_check\<close> of
  utils/s2n\_safety.h are not among the sources. \<open>eq_check\<close> fails with a size-mismatch
  error (\<open>S2N_ERR_SIZE_MISMATCH\<close>) when its two arguments differ, \<open>notnull_check\<close>
  fails (\<open>S2N_ERR_NULL\<close>) on a null pointer; for a handle acquisition this is the
  spec's AllocFailed. The six other constructors are the error codes the file itself
  raises with \<open>S2N_ERROR\<close>.
\<close>

datatype s2n_error =
    S2N_ERR_HASH_INVALID_ALGORITHM
  | S2N_ERR_HASH_INIT_FAILED
  | S2N_ERR_HASH_UPDATE_FAILED
  | S2N_ERR_HASH_DIGEST_FAILED
  | S2N_ERR_HASH_COPY_FAILED
  | S2N_ERR_HASH_WIPE_FAILED
  | S2N_ERR_SIZE_MISMATCH
  | S2N_ERR_NULL

text \<open>
  A function of the file returns 0, or sets \<open>s2n_errno\<close> and returns -1
  (\<open>S2N_ERROR\<close>).
\<close>

datatype s2n_rc = S2N_SUCCESS | S2N_FAILURE s2n_error

type_synonym byte = "8 word"
type_synonym bytes = "byte list"

text \<open>The digest lengths of OpenSSL's md5.h and sha.h.\<close>

definition MD5_DIGEST_LENGTH :: nat where "MD5_DIGEST_LENGTH = 16"
definition SHA_DIGEST_LENGTH :: nat where "SHA_DIGEST_LENGTH = 20"
definition SHA224_DIGEST_LENGTH :: nat where "SHA224_DIGEST_LENGTH = 28"
definition SHA256_DIGEST_LENGTH :: nat where "SHA256_DIGEST_LENGTH = 32"
definition SHA384_DIGEST_LENGTH :: nat where "SHA384_DIGEST_LENGTH = 48"
definition SHA512_DIGEST_LENGTH :: nat where "SHA512_DIGEST_LENGTH = 64"

subsection \<open>The algorithm registry and the availability policy\<close>

text \<open>
  \<open>s2n_hash_digest_size\<close> writes the size through \<open>uint8_t *out\<close> and returns 0,
  or raises \<open>S2N_ERR_HASH_INVALID_ALGORITHM\<close> and writes nothing: the result is the
  error, or the byte written.
\<close>

fun s2n_hash_digest_size :: "s2n_hash_algorithm \<Rightarrow> s2n_error + 8 word" where
  "s2n_hash_digest_size S2N_HASH_NONE = Inr 0"
| "s2n_hash_digest_size S2N_HASH_MD5 = Inr (of_nat MD5_DIGEST_LENGTH)"
| "s2n_hash_digest_size S2N_HASH_SHA1 = Inr (of_nat SHA_DIGEST_LENGTH)"
| "s2n_hash_digest_size S2N_HASH_SHA224 = Inr (of_nat SHA224_DIGEST_LENGTH)"
| "s2n_hash_digest_size S2N_HASH_SHA256 = Inr (of_nat SHA256_DIGEST_LENGTH)"
| "s2n_hash_digest_size S2N_HASH_SHA384 = Inr (of_nat SHA384_DIGEST_LENGTH)"
| "s2n_hash_digest_size S2N_HASH_SHA512 = Inr (of_nat SHA512_DIGEST_LENGTH)"
| "s2n_hash_digest_size S2N_HASH_MD5_SHA1 =
     Inr (of_nat (MD5_DIGEST_LENGTH + SHA_DIGEST_LENGTH))"
| "s2n_hash_digest_size (S2N_HASH_OTHER n) = Inl S2N_ERR_HASH_INVALID_ALGORITHM"

text \<open>
  \<open>s2n_hash_is_available\<close> returns the C integer \<open>is_available\<close> (1 or 0), or
  raises \<open>S2N_ERR_HASH_INVALID_ALGORITHM\<close>, which makes it return -1.
\<close>

fun s2n_hash_is_available :: "bool \<Rightarrow> s2n_hash_algorithm \<Rightarrow> s2n_error + int" where
  "s2n_hash_is_available fips S2N_HASH_MD5 = Inr (if fips then 0 else 1)"
| "s2n_hash_is_available fips S2N_HASH_MD5_SHA1 = Inr (if fips then 0 else 1)"
| "s2n_hash_is_available fips S2N_HASH_NONE = Inr 1"
| "s2n_hash_is_available fips S2N_HASH_SHA1 = Inr 1"
| "s2n_hash_is_available fips S2N_HASH_SHA224 = Inr 1"
| "s2n_hash_is_available fips S2N_HASH_SHA256 = Inr 1"
| "s2n_hash_is_available fips S2N_HASH_SHA384 = Inr 1"
| "s2n_hash_is_available fips S2N_HASH_SHA512 = Inr 1"
| "s2n_hash_is_available fips (S2N_HASH_OTHER n) = Inl S2N_ERR_HASH_INVALID_ALGORITHM"

text \<open>
  The value a caller sees when it uses the returned integer as a condition: the -1 of a
  raised error is not zero.
\<close>

definition c_int_of :: "s2n_error + int \<Rightarrow> int" where
  "c_int_of r = (case r of Inl e \<Rightarrow> - 1 | Inr v \<Rightarrow> v)"


subsection \<open>The OpenSSL routines\<close>

text \<open>
  The digest routines belong to OpenSSL, not to this repository, so the model takes them
  as a parameter \<open>lib\<close> and fixes nothing about the digests they compute. \<open>'c\<close> is
  the content of a native context (\<open>MD5_CTX\<close>, \<open>SHA_CTX\<close>, \<open>SHA256_CTX\<close>,
  \<open>SHA512_CTX\<close>), \<open>'h\<close> the content of an \<open>EVP_MD_CTX\<close>. Every routine returns
  its C return code (zero means failure) with what it wrote:
  \<^item> \<open>X_Init(c)\<close> writes the context \<open>*c\<close>, whose bytes are indeterminate when the
    state is new, so it is given no old content;
  \<^item> \<open>X_Update(c, data, size)\<close> takes the \<open>size\<close> bytes at \<open>data\<close> as a byte list;
  \<open>X_Final(md, c)\<close> returns the bytes it writes at \<open>md\<close> and the context it leaves;
  \<^item> \<open>EVP_MD_CTX_copy_ex(out, in)\<close> is given both contents and returns the new
    content of \<open>out\<close>.
\<close>

datatype evp_md = EVP_md5 | EVP_sha1 | EVP_sha224 | EVP_sha256 | EVP_sha384 | EVP_sha512

record ('c, 'h) openssl =
  Native_Init :: "evp_md \<Rightarrow> int \<times> 'c"
  Native_Update :: "evp_md \<Rightarrow> 'c \<Rightarrow> bytes \<Rightarrow> int \<times> 'c"
  Native_Final :: "evp_md \<Rightarrow> 'c \<Rightarrow> int \<times> bytes \<times> 'c"
  MD_CTX_fresh :: "'h"
  DigestInit_ex :: "'h \<Rightarrow> evp_md \<Rightarrow> int \<times> 'h"
  DigestUpdate :: "'h \<Rightarrow> bytes \<Rightarrow> int \<times> 'h"
  DigestFinal_ex :: "'h \<Rightarrow> int \<times> bytes \<times> 'h"
  MD_CTX_copy_ex :: "'h \<Rightarrow> 'h \<Rightarrow> int \<times> 'h"
  MD_CTX_reset :: "'h \<Rightarrow> int \<times> 'h"

abbreviation "MD5_Init lib \<equiv> Native_Init lib EVP_md5"
abbreviation "SHA1_Init lib \<equiv> Native_Init lib EVP_sha1"
abbreviation "SHA224_Init lib \<equiv> Native_Init lib EVP_sha224"
abbreviation "SHA256_Init lib \<equiv> Native_Init lib EVP_sha256"
abbreviation "SHA384_Init lib \<equiv> Native_Init lib EVP_sha384"
abbreviation "SHA512_Init lib \<equiv> Native_Init lib EVP_sha512"

abbreviation "MD5_Update lib \<equiv> Native_Update lib EVP_md5"
abbreviation "SHA1_Update lib \<equiv> Native_Update lib EVP_sha1"
abbreviation "SHA224_Update lib \<equiv> Native_Update lib EVP_sha224"
abbreviation "SHA256_Update lib \<equiv> Native_Update lib EVP_sha256"
abbreviation "SHA384_Update lib \<equiv> Native_Update lib EVP_sha384"
abbreviation "SHA512_Update lib \<equiv> Native_Update lib EVP_sha512"

abbreviation "MD5_Final lib \<equiv> Native_Final lib EVP_md5"
abbreviation "SHA1_Final lib \<equiv> Native_Final lib EVP_sha1"
abbreviation "SHA224_Final lib \<equiv> Native_Final lib EVP_sha224"
abbreviation "SHA256_Final lib \<equiv> Native_Final lib EVP_sha256"
abbreviation "SHA384_Final lib \<equiv> Native_Final lib EVP_sha384"
abbreviation "SHA512_Final lib \<equiv> Native_Final lib EVP_sha512"

text \<open>
  The caller's buffer \<open>out\<close> is a byte list; a routine that writes the bytes \<open>d\<close> at
  \<open>out + off\<close> replaces that part of it. The buffer is meant to hold at least
  \<open>off + length d\<close> bytes, as C requires of the caller.
\<close>

definition write_at :: "bytes \<Rightarrow> nat \<Rightarrow> bytes \<Rightarrow> bytes" where
  "write_at buf off d = take off buf @ d @ drop (off + length d) buf"

subsection \<open>The hash state\<close>

text \<open>
  \<open>union s2n_hash_low_level_digest\<close>: each member of the union is a field. The code
  reads the member that \<open>state->alg\<close> selects, which is the one its last successful
  \<open>init\<close> wrote; that the members share their bytes is not modelled.
\<close>

record 'c s2n_hash_low_level_digest =
  md5 :: 'c
  sha1 :: 'c
  sha224 :: 'c
  sha256 :: 'c
  sha384 :: 'c
  sha512 :: 'c
  md5_sha1_md5 :: 'c
  md5_sha1_sha1 :: 'c

type_synonym addr = nat

text \<open>
  Modelled from the spec: the declaration of \<open>struct s2n_evp_digest\<close> and the helpers
  \<open>s2n_digest_allow_md5_for_fips\<close> and \<open>s2n_digest_is_md5_allowed_for_fips\<close> are
  not among the sources. The structure holds the handle \<open>ctx\<close> that the file uses
  (\<open>None\<close> is the null pointer). The spec gives the hash state a boolean
  "certified-mode MD5 allowed" override that \<open>allow_md5_for_fips\<close> sets; both helpers
  are handed \<open>&state->digest.high_level.evp\<close>. The override is state of the handle:
  \<open>s2n_evp_hash_reset\<close> reads it before it resets the handle and sets it again
  afterwards, and the spec's copy "duplicates handle state". The model keeps it in the
  field \<open>md5_allowed_for_fips\<close> beside \<open>ctx\<close>, and the two routines that replace
  the whole state of a handle act on the field too (\<open>handle_state_copied\<close>,
  \<open>handle_state_reset\<close> below).
\<close>

record s2n_evp_digest =
  ctx :: "addr option"
  md5_allowed_for_fips :: bool

record s2n_hash_evp_digest =
  evp :: s2n_evp_digest
  evp_md5_secondary :: s2n_evp_digest

text \<open>The two backend descriptors \<open>static const struct s2n_hash\<close>.\<close>

datatype s2n_hash = s2n_low_level_hash | s2n_evp_hash

text \<open>
  \<open>struct s2n_hash_state\<close>. \<open>hash_impl\<close> points to one of the two descriptors or is
  null. The members \<open>low_level\<close> and \<open>high_level\<close> of the union \<open>digest\<close> are two
  fields.
\<close>

record 'c s2n_hash_state =
  hash_impl :: "s2n_hash option"
  alg :: s2n_hash_algorithm
  low_level :: "'c s2n_hash_low_level_digest"
  high_level :: s2n_hash_evp_digest

subsection \<open>The low-level backend\<close>

definition s2n_low_level_hash_new ::
  "'c s2n_hash_state \<Rightarrow> s2n_rc \<times> 'c s2n_hash_state" where
  "s2n_low_level_hash_new state = (S2N_SUCCESS, state)"

text \<open>
  The end of \<open>s2n_low_level_hash_init\<close>, after the \<open>switch\<close>: \<open>state\<close> is the state
  with the contexts the \<open>switch\<close> wrote.
\<close>

definition low_level_init_end ::
  "int \<Rightarrow> 'c s2n_hash_state \<Rightarrow> s2n_hash_algorithm \<Rightarrow> s2n_rc \<times> 'c s2n_hash_state" where
  "low_level_init_end r state a =
     (if r = 0 then (S2N_FAILURE S2N_ERR_HASH_INIT_FAILED, state)
      else (S2N_SUCCESS, state\<lparr>alg := a\<rparr>))"

fun s2n_low_level_hash_init ::
  "('c, 'h) openssl \<Rightarrow> 'c s2n_hash_state \<Rightarrow> s2n_hash_algorithm
     \<Rightarrow> s2n_rc \<times> 'c s2n_hash_state" where
  "s2n_low_level_hash_init lib state S2N_HASH_NONE = low_level_init_end 1 state S2N_HASH_NONE"
| "s2n_low_level_hash_init lib state S2N_HASH_MD5 =
     (let (r, c) = MD5_Init lib
      in low_level_init_end r (state\<lparr>low_level := (low_level state)\<lparr>md5 := c\<rparr>\<rparr>) S2N_HASH_MD5)"
| "s2n_low_level_hash_init lib state S2N_HASH_SHA1 =
     (let (r, c) = SHA1_Init lib
      in low_level_init_end r (state\<lparr>low_level := (low_level state)\<lparr>sha1 := c\<rparr>\<rparr>) S2N_HASH_SHA1)"
| "s2n_low_level_hash_init lib state S2N_HASH_SHA224 =
     (let (r, c) = SHA224_Init lib
      in low_level_init_end r (state\<lparr>low_level := (low_level state)\<lparr>sha224 := c\<rparr>\<rparr>)
           S2N_HASH_SHA224)"
| "s2n_low_level_hash_init lib state S2N_HASH_SHA256 =
     (let (r, c) = SHA256_Init lib
      in low_level_init_end r (state\<lparr>low_level := (low_level state)\<lparr>sha256 := c\<rparr>\<rparr>)
           S2N_HASH_SHA256)"
| "s2n_low_level_hash_init lib state S2N_HASH_SHA384 =
     (let (r, c) = SHA384_Init lib
      in low_level_init_end r (state\<lparr>low_level := (low_level state)\<lparr>sha384 := c\<rparr>\<rparr>)
           S2N_HASH_SHA384)"
| "s2n_low_level_hash_init lib state S2N_HASH_SHA512 =
     (let (r, c) = SHA512_Init lib
      in low_level_init_end r (state\<lparr>low_level := (low_level state)\<lparr>sha512 := c\<rparr>\<rparr>)
           S2N_HASH_SHA512)"
| "s2n_low_level_hash_init lib state S2N_HASH_MD5_SHA1 =
     (let (r1, c1) = SHA1_Init lib;
          (r2, c2) = MD5_Init lib
      in low_level_init_end (r1 AND r2)
           (state\<lparr>low_level := (low_level state)\<lparr>md5_sha1_sha1 := c1, md5_sha1_md5 := c2\<rparr>\<rparr>)
           S2N_HASH_MD5_SHA1)"
| "s2n_low_level_hash_init lib state (S2N_HASH_OTHER n) =
     (S2N_FAILURE S2N_ERR_HASH_INVALID_ALGORITHM, state)"

definition low_level_update_end ::
  "int \<Rightarrow> 'c s2n_hash_state \<Rightarrow> s2n_rc \<times> 'c s2n_hash_state" where
  "low_level_update_end r state =
     (if r = 0 then (S2N_FAILURE S2N_ERR_HASH_UPDATE_FAILED, state) else (S2N_SUCCESS, state))"

definition s2n_low_level_hash_update ::
  "('c, 'h) openssl \<Rightarrow> 'c s2n_hash_state \<Rightarrow> bytes \<Rightarrow> s2n_rc \<times> 'c s2n_hash_state" where
  "s2n_low_level_hash_update lib state data =
     (case alg state of
        S2N_HASH_NONE \<Rightarrow> low_level_update_end 1 state
      | S2N_HASH_MD5 \<Rightarrow>
          (let (r, c) = MD5_Update lib (md5 (low_level state)) data
           in low_level_update_end r (state\<lparr>low_level := (low_level state)\<lparr>md5 := c\<rparr>\<rparr>))
      | S2N_HASH_SHA1 \<Rightarrow>
          (let (r, c) = SHA1_Update lib (sha1 (low_level state)) data
           in low_level_update_end r (state\<lparr>low_level := (low_level state)\<lparr>sha1 := c\<rparr>\<rparr>))
      | S2N_HASH_SHA224 \<Rightarrow>
          (let (r, c) = SHA224_Update lib (sha224 (low_level state)) data
           in low_level_update_end r (state\<lparr>low_level := (low_level state)\<lparr>sha224 := c\<rparr>\<rparr>))
      | S2N_HASH_SHA256 \<Rightarrow>
          (let (r, c) = SHA256_Update lib (sha256 (low_level state)) data
           in low_level_update_end r (state\<lparr>low_level := (low_level state)\<lparr>sha256 := c\<rparr>\<rparr>))
      | S2N_HASH_SHA384 \<Rightarrow>
          (let (r, c) = SHA384_Update lib (sha384 (low_level state)) data
           in low_level_update_end r (state\<lparr>low_level := (low_level state)\<lparr>sha384 := c\<rparr>\<rparr>))
      | S2N_HASH_SHA512 \<Rightarrow>
          (let (r, c) = SHA512_Update lib (sha512 (low_level state)) data
           in low_level_update_end r (state\<lparr>low_level := (low_level state)\<lparr>sha512 := c\<rparr>\<rparr>))
      | S2N_HASH_MD5_SHA1 \<Rightarrow>
          (let (r1, c1) = SHA1_Update lib (md5_sha1_sha1 (low_level state)) data;
               (r2, c2) = MD5_Update lib (md5_sha1_md5 (low_level state)) data
           in low_level_update_end (r1 AND r2)
                (state\<lparr>low_level :=
                   (low_level state)\<lparr>md5_sha1_sha1 := c1, md5_sha1_md5 := c2\<rparr>\<rparr>))
      | S2N_HASH_OTHER n \<Rightarrow> (S2N_FAILURE S2N_ERR_HASH_INVALID_ALGORITHM, state))"

text \<open>
  \<open>s2n_low_level_hash_digest(state, out, size)\<close> returns its code, the state and the
  buffer \<open>out\<close> as it leaves them. \<open>eq_check\<close> returns before anything is written.
\<close>

definition low_level_digest_end ::
  "int \<Rightarrow> 'c s2n_hash_state \<Rightarrow> bytes \<Rightarrow> s2n_rc \<times> 'c s2n_hash_state \<times> bytes" where
  "low_level_digest_end r state out =
     (if r = 0 then (S2N_FAILURE S2N_ERR_HASH_DIGEST_FAILED, state, out)
      else (S2N_SUCCESS, state, out))"

definition s2n_low_level_hash_digest ::
  "('c, 'h) openssl \<Rightarrow> 'c s2n_hash_state \<Rightarrow> bytes \<Rightarrow> 32 word
     \<Rightarrow> s2n_rc \<times> 'c s2n_hash_state \<times> bytes" where
  "s2n_low_level_hash_digest lib state out sz =
     (case alg state of
        S2N_HASH_NONE \<Rightarrow> low_level_digest_end 1 state out
      | S2N_HASH_MD5 \<Rightarrow>
          (if unat sz \<noteq> MD5_DIGEST_LENGTH then (S2N_FAILURE S2N_ERR_SIZE_MISMATCH, state, out)
           else
             (let (r, d, c) = MD5_Final lib (md5 (low_level state))
              in low_level_digest_end r (state\<lparr>low_level := (low_level state)\<lparr>md5 := c\<rparr>\<rparr>)
                   (write_at out 0 d)))
      | S2N_HASH_SHA1 \<Rightarrow>
          (if unat sz \<noteq> SHA_DIGEST_LENGTH then (S2N_FAILURE S2N_ERR_SIZE_MISMATCH, state, out)
           else
             (let (r, d, c) = SHA1_Final lib (sha1 (low_level state))
              in low_level_digest_end r (state\<lparr>low_level := (low_level state)\<lparr>sha1 := c\<rparr>\<rparr>)
                   (write_at out 0 d)))
      | S2N_HASH_SHA224 \<Rightarrow>
          (if unat sz \<noteq> SHA224_DIGEST_LENGTH
           then (S2N_FAILURE S2N_ERR_SIZE_MISMATCH, state, out)
           else
             (let (r, d, c) = SHA224_Final lib (sha224 (low_level state))
              in low_level_digest_end r (state\<lparr>low_level := (low_level state)\<lparr>sha224 := c\<rparr>\<rparr>)
                   (write_at out 0 d)))
      | S2N_HASH_SHA256 \<Rightarrow>
          (if unat sz \<noteq> SHA256_DIGEST_LENGTH
           then (S2N_FAILURE S2N_ERR_SIZE_MISMATCH, state, out)
           else
             (let (r, d, c) = SHA256_Final lib (sha256 (low_level state))
              in low_level_digest_end r (state\<lparr>low_level := (low_level state)\<lparr>sha256 := c\<rparr>\<rparr>)
                   (write_at out 0 d)))
      | S2N_HASH_SHA384 \<Rightarrow>
          (if unat sz \<noteq> SHA384_DIGEST_LENGTH
           then (S2N_FAILURE S2N_ERR_SIZE_MISMATCH, state, out)
           else
             (let (r, d, c) = SHA384_Final lib (sha384 (low_level state))
              in low_level_digest_end r (state\<lparr>low_level := (low_level state)\<lparr>sha384 := c\<rparr>\<rparr>)
                   (write_at out 0 d)))
      | S2N_HASH_SHA512 \<Rightarrow>
          (if unat sz \<noteq> SHA512_DIGEST_LENGTH
           then (S2N_FAILURE S2N_ERR_SIZE_MISMATCH, state, out)
           else
             (let (r, d, c) = SHA512_Final lib (sha512 (low_level state))
              in low_level_digest_end r (state\<lparr>low_level := (low_level state)\<lparr>sha512 := c\<rparr>\<rparr>)
                   (write_at out 0 d)))
      | S2N_HASH_MD5_SHA1 \<Rightarrow>
          (if unat sz \<noteq> MD5_DIGEST_LENGTH + SHA_DIGEST_LENGTH
           then (S2N_FAILURE S2N_ERR_SIZE_MISMATCH, state, out)
           else
             (let (r1, d1, c1) = SHA1_Final lib (md5_sha1_sha1 (low_level state));
                  out1 = write_at out MD5_DIGEST_LENGTH d1;
                  (r2, d2, c2) = MD5_Final lib (md5_sha1_md5 (low_level state));
                  out2 = write_at out1 0 d2
              in low_level_digest_end (r1 AND r2)
                   (state\<lparr>low_level :=
                      (low_level state)\<lparr>md5_sha1_sha1 := c1, md5_sha1_md5 := c2\<rparr>\<rparr>)
                   out2))
      | S2N_HASH_OTHER n \<Rightarrow> (S2N_FAILURE S2N_ERR_HASH_INVALID_ALGORITHM, state, out))"

text \<open>
  \<open>s2n_low_level_hash_copy\<close>: \<open>memcpy_check\<close> copies the whole structure, the
  \<open>hash_impl\<close> reference and the tag included.
\<close>

definition s2n_low_level_hash_copy ::
  "'c s2n_hash_state \<Rightarrow> 'c s2n_hash_state \<Rightarrow> s2n_rc \<times> 'c s2n_hash_state" where
  "s2n_low_level_hash_copy to from = (S2N_SUCCESS, from)"

definition s2n_low_level_hash_reset ::
  "('c, 'h) openssl \<Rightarrow> 'c s2n_hash_state \<Rightarrow> s2n_rc \<times> 'c s2n_hash_state" where
  "s2n_low_level_hash_reset lib state = s2n_low_level_hash_init lib state (alg state)"

definition s2n_low_level_hash_free ::
  "'c s2n_hash_state \<Rightarrow> s2n_rc \<times> 'c s2n_hash_state" where
  "s2n_low_level_hash_free state = (S2N_SUCCESS, state)"

subsection \<open>The handles of the EVP backend\<close>

text \<open>
  An \<open>EVP_MD_CTX *\<close> is an address. The heap maps the addresses of the live contexts
  to their contents; \<open>avail\<close> lists the addresses the allocator hands out next, and an
  allocation fails (returns the null pointer) when it is empty. A routine that is given
  a null pointer or the address of no live context has no defined behaviour in C: the
  model returns \<open>None\<close> for it.
\<close>

record 'h evp_heap =
  live :: "addr \<rightharpoonup> 'h"
  avail :: "addr list"

definition on_ctx ::
  "addr option \<Rightarrow> 'h evp_heap \<Rightarrow> ('h \<Rightarrow> 'r \<times> 'h) \<Rightarrow> ('r \<times> 'h evp_heap) option" where
  "on_ctx p hp f =
     (case p of
        None \<Rightarrow> None
      | Some a \<Rightarrow>
          (case live hp a of
             None \<Rightarrow> None
           | Some h \<Rightarrow> (let (r, h') = f h in Some (r, hp\<lparr>live := (live hp)(a \<mapsto> h')\<rparr>))))"

text \<open>
  Modelled from the spec: the macros \<open>S2N_EVP_MD_CTX_NEW\<close>, \<open>S2N_EVP_MD_CTX_RESET\<close>
  and \<open>S2N_EVP_MD_CTX_FREE\<close> of crypto/s2n\_openssl.h are not among the sources. The
  first acquires an independent handle or returns null, the second resets a handle in
  place and reports failure by zero, the third destroys a handle, with a null check for
  each handle.
\<close>

definition S2N_EVP_MD_CTX_NEW ::
  "('c, 'h) openssl \<Rightarrow> 'h evp_heap \<Rightarrow> addr option \<times> 'h evp_heap" where
  "S2N_EVP_MD_CTX_NEW lib hp =
     (case avail hp of
        [] \<Rightarrow> (None, hp)
      | a # as \<Rightarrow> (Some a, hp\<lparr>live := (live hp)(a \<mapsto> MD_CTX_fresh lib), avail := as\<rparr>))"

definition S2N_EVP_MD_CTX_RESET ::
  "('c, 'h) openssl \<Rightarrow> addr option \<Rightarrow> 'h evp_heap \<Rightarrow> (int \<times> 'h evp_heap) option" where
  "S2N_EVP_MD_CTX_RESET lib p hp = on_ctx p hp (MD_CTX_reset lib)"

definition S2N_EVP_MD_CTX_FREE :: "addr option \<Rightarrow> 'h evp_heap \<Rightarrow> 'h evp_heap option" where
  "S2N_EVP_MD_CTX_FREE p hp =
     (case p of
        None \<Rightarrow> Some hp
      | Some a \<Rightarrow>
          (case live hp a of
             None \<Rightarrow> None
           | Some h \<Rightarrow> Some (hp\<lparr>live := (live hp)(a := None)\<rparr>)))"

definition EVP_DigestInit_ex ::
  "('c, 'h) openssl \<Rightarrow> addr option \<Rightarrow> evp_md \<Rightarrow> 'h evp_heap \<Rightarrow> (int \<times> 'h evp_heap) option" where
  "EVP_DigestInit_ex lib p md hp = on_ctx p hp (\<lambda>h. DigestInit_ex lib h md)"

definition EVP_DigestUpdate ::
  "('c, 'h) openssl \<Rightarrow> addr option \<Rightarrow> bytes \<Rightarrow> 'h evp_heap \<Rightarrow> (int \<times> 'h evp_heap) option" where
  "EVP_DigestUpdate lib p data hp = on_ctx p hp (\<lambda>h. DigestUpdate lib h data)"

definition EVP_DigestFinal_ex ::
  "('c, 'h) openssl \<Rightarrow> addr option \<Rightarrow> 'h evp_heap \<Rightarrow> ((int \<times> bytes) \<times> 'h evp_heap) option" where
  "EVP_DigestFinal_ex lib p hp =
     on_ctx p hp (\<lambda>h. let (r, d, h') = DigestFinal_ex lib h in ((r, d), h'))"

definition EVP_MD_CTX_copy_ex ::
  "('c, 'h) openssl \<Rightarrow> addr option \<Rightarrow> addr option \<Rightarrow> 'h evp_heap
     \<Rightarrow> (int \<times> 'h evp_heap) option" where
  "EVP_MD_CTX_copy_ex lib pout pin hp =
     (case pin of
        None \<Rightarrow> None
      | Some b \<Rightarrow>
          (case live hp b of
             None \<Rightarrow> None
           | Some hin \<Rightarrow> on_ctx pout hp (\<lambda>h. MD_CTX_copy_ex lib h hin)))"

abbreviation "evp_ctx state \<equiv> ctx (evp (high_level state))"
abbreviation "evp_md5_secondary_ctx state \<equiv> ctx (evp_md5_secondary (high_level state))"

definition set_evp_ctx :: "addr option \<Rightarrow> 'c s2n_hash_state \<Rightarrow> 'c s2n_hash_state" where
  "set_evp_ctx p state =
     state\<lparr>high_level := (high_level state)\<lparr>evp := (evp (high_level state))\<lparr>ctx := p\<rparr>\<rparr>\<rparr>"

definition set_evp_md5_secondary_ctx ::
  "addr option \<Rightarrow> 'c s2n_hash_state \<Rightarrow> 'c s2n_hash_state" where
  "set_evp_md5_secondary_ctx p state =
     state\<lparr>high_level := (high_level state)
       \<lparr>evp_md5_secondary := (evp_md5_secondary (high_level state))\<lparr>ctx := p\<rparr>\<rparr>\<rparr>"

text \<open>
  Modelled from the spec: \<open>s2n_digest_allow_md5_for_fips\<close> is not among the sources.
  It "sets the override flag on the state". The spec names no failure of it, so it
  succeeds here.
\<close>

definition s2n_digest_allow_md5_for_fips :: "s2n_evp_digest \<Rightarrow> s2n_rc \<times> s2n_evp_digest" where
  "s2n_digest_allow_md5_for_fips evp_digest =
     (S2N_SUCCESS, evp_digest\<lparr>md5_allowed_for_fips := True\<rparr>)"

text \<open>
  Modelled from the spec: \<open>s2n_digest_is_md5_allowed_for_fips\<close> is not among the
  sources. It tells whether "the MD5-override is set"; the override is the
  "certified-mode MD5 allowed" flag, "meaningful only for the Generic backend", which is
  the backend of FIPS mode: outside FIPS mode the answer is no.
\<close>

definition s2n_digest_is_md5_allowed_for_fips :: "bool \<Rightarrow> s2n_evp_digest \<Rightarrow> bool" where
  "s2n_digest_is_md5_allowed_for_fips fips evp_digest =
     (fips \<and> md5_allowed_for_fips evp_digest)"

text \<open>
  Modelled from the spec: the override as state of the handle. After
  \<open>EVP_MD_CTX_copy_ex(out, in)\<close> has returned \<open>r\<close>, the handle \<open>out\<close> has the
  override of \<open>in\<close> when the duplication succeeded (the spec's copy "duplicates handle
  state"); after the reset of a handle has returned \<open>r\<close>, a handle that was reset has
  no override (which is why \<open>s2n_evp_hash_reset\<close> sets it again).
\<close>

definition handle_state_copied ::
  "int \<Rightarrow> s2n_evp_digest \<Rightarrow> s2n_evp_digest \<Rightarrow> s2n_evp_digest" where
  "handle_state_copied r dout din =
     (if r = 0 then dout else dout\<lparr>md5_allowed_for_fips := md5_allowed_for_fips din\<rparr>)"

definition handle_state_reset :: "int \<Rightarrow> s2n_evp_digest \<Rightarrow> s2n_evp_digest" where
  "handle_state_reset r d = (if r = 0 then d else d\<lparr>md5_allowed_for_fips := False\<rparr>)"

definition set_evp :: "s2n_evp_digest \<Rightarrow> 'c s2n_hash_state \<Rightarrow> 'c s2n_hash_state" where
  "set_evp d state = state\<lparr>high_level := (high_level state)\<lparr>evp := d\<rparr>\<rparr>"

definition set_evp_md5_secondary ::
  "s2n_evp_digest \<Rightarrow> 'c s2n_hash_state \<Rightarrow> 'c s2n_hash_state" where
  "set_evp_md5_secondary d state =
     state\<lparr>high_level := (high_level state)\<lparr>evp_md5_secondary := d\<rparr>\<rparr>"

subsection \<open>The EVP backend\<close>

text \<open>
  The functions of this backend take and return the heap of the handles; the result is
  \<open>None\<close> where the C code has no defined behaviour.
\<close>

definition s2n_evp_hash_new ::
  "('c, 'h) openssl \<Rightarrow> 'c s2n_hash_state \<Rightarrow> 'h evp_heap
     \<Rightarrow> s2n_rc \<times> 'c s2n_hash_state \<times> 'h evp_heap" where
  "s2n_evp_hash_new lib state hp =
     (let (p1, hp1) = S2N_EVP_MD_CTX_NEW lib hp;
          state1 = set_evp_ctx p1 state
      in if p1 = None then (S2N_FAILURE S2N_ERR_NULL, state1, hp1)
         else
           (let (p2, hp2) = S2N_EVP_MD_CTX_NEW lib hp1;
                state2 = set_evp_md5_secondary_ctx p2 state1
            in if p2 = None then (S2N_FAILURE S2N_ERR_NULL, state2, hp2)
               else (S2N_SUCCESS, state2, hp2)))"

definition s2n_evp_hash_allow_md5_for_fips ::
  "'c s2n_hash_state \<Rightarrow> s2n_rc \<times> 'c s2n_hash_state" where
  "s2n_evp_hash_allow_md5_for_fips state =
     (let (rc, d) = s2n_digest_allow_md5_for_fips (evp (high_level state))
      in (rc, state\<lparr>high_level := (high_level state)\<lparr>evp := d\<rparr>\<rparr>))"

definition evp_init_end ::
  "'c s2n_hash_state \<Rightarrow> s2n_hash_algorithm \<Rightarrow> int \<times> 'h evp_heap
     \<Rightarrow> s2n_rc \<times> 'c s2n_hash_state \<times> 'h evp_heap" where
  "evp_init_end state a rh =
     (let (r, hp) = rh
      in if r = 0 then (S2N_FAILURE S2N_ERR_HASH_INIT_FAILED, state, hp)
         else (S2N_SUCCESS, state\<lparr>alg := a\<rparr>, hp))"

fun s2n_evp_hash_init ::
  "('c, 'h) openssl \<Rightarrow> 'c s2n_hash_state \<Rightarrow> 'h evp_heap \<Rightarrow> s2n_hash_algorithm
     \<Rightarrow> (s2n_rc \<times> 'c s2n_hash_state \<times> 'h evp_heap) option" where
  "s2n_evp_hash_init lib state hp S2N_HASH_NONE =
     Some (evp_init_end state S2N_HASH_NONE (1, hp))"
| "s2n_evp_hash_init lib state hp S2N_HASH_MD5 =
     map_option (evp_init_end state S2N_HASH_MD5)
       (EVP_DigestInit_ex lib (evp_ctx state) EVP_md5 hp)"
| "s2n_evp_hash_init lib state hp S2N_HASH_SHA1 =
     map_option (evp_init_end state S2N_HASH_SHA1)
       (EVP_DigestInit_ex lib (evp_ctx state) EVP_sha1 hp)"
| "s2n_evp_hash_init lib state hp S2N_HASH_SHA224 =
     map_option (evp_init_end state S2N_HASH_SHA224)
       (EVP_DigestInit_ex lib (evp_ctx state) EVP_sha224 hp)"
| "s2n_evp_hash_init lib state hp S2N_HASH_SHA256 =
     map_option (evp_init_end state S2N_HASH_SHA256)
       (EVP_DigestInit_ex lib (evp_ctx state) EVP_sha256 hp)"
| "s2n_evp_hash_init lib state hp S2N_HASH_SHA384 =
     map_option (evp_init_end state S2N_HASH_SHA384)
       (EVP_DigestInit_ex lib (evp_ctx state) EVP_sha384 hp)"
| "s2n_evp_hash_init lib state hp S2N_HASH_SHA512 =
     map_option (evp_init_end state S2N_HASH_SHA512)
       (EVP_DigestInit_ex lib (evp_ctx state) EVP_sha512 hp)"
| "s2n_evp_hash_init lib state hp S2N_HASH_MD5_SHA1 =
     do {
       (r1, hp1) \<leftarrow> EVP_DigestInit_ex lib (evp_ctx state) EVP_sha1 hp;
       (r2, hp2) \<leftarrow> EVP_DigestInit_ex lib (evp_md5_secondary_ctx state) EVP_md5 hp1;
       Some (evp_init_end state S2N_HASH_MD5_SHA1 (r1 AND r2, hp2))
     }"
| "s2n_evp_hash_init lib state hp (S2N_HASH_OTHER n) =
     Some (S2N_FAILURE S2N_ERR_HASH_INVALID_ALGORITHM, state, hp)"

definition evp_update_end ::
  "'c s2n_hash_state \<Rightarrow> int \<times> 'h evp_heap \<Rightarrow> s2n_rc \<times> 'c s2n_hash_state \<times> 'h evp_heap" where
  "evp_update_end state rh =
     (let (r, hp) = rh
      in if r = 0 then (S2N_FAILURE S2N_ERR_HASH_UPDATE_FAILED, state, hp)
         else (S2N_SUCCESS, state, hp))"

text \<open>The branch that the six plain algorithms share in \<open>s2n_evp_hash_update\<close>.\<close>

definition evp_update_primary ::
  "('c, 'h) openssl \<Rightarrow> 'c s2n_hash_state \<Rightarrow> 'h evp_heap \<Rightarrow> bytes
     \<Rightarrow> (s2n_rc \<times> 'c s2n_hash_state \<times> 'h evp_heap) option" where
  "evp_update_primary lib state hp data =
     map_option (evp_update_end state) (EVP_DigestUpdate lib (evp_ctx state) data hp)"

definition s2n_evp_hash_update ::
  "('c, 'h) openssl \<Rightarrow> 'c s2n_hash_state \<Rightarrow> 'h evp_heap \<Rightarrow> bytes
     \<Rightarrow> (s2n_rc \<times> 'c s2n_hash_state \<times> 'h evp_heap) option" where
  "s2n_evp_hash_update lib state hp data =
     (case alg state of
        S2N_HASH_NONE \<Rightarrow> Some (evp_update_end state (1, hp))
      | S2N_HASH_MD5 \<Rightarrow> evp_update_primary lib state hp data
      | S2N_HASH_SHA1 \<Rightarrow> evp_update_primary lib state hp data
      | S2N_HASH_SHA224 \<Rightarrow> evp_update_primary lib state hp data
      | S2N_HASH_SHA256 \<Rightarrow> evp_update_primary lib state hp data
      | S2N_HASH_SHA384 \<Rightarrow> evp_update_primary lib state hp data
      | S2N_HASH_SHA512 \<Rightarrow> evp_update_primary lib state hp data
      | S2N_HASH_MD5_SHA1 \<Rightarrow>
          do {
            (r1, hp1) \<leftarrow> EVP_DigestUpdate lib (evp_ctx state) data hp;
            (r2, hp2) \<leftarrow> EVP_DigestUpdate lib (evp_md5_secondary_ctx state) data hp1;
            Some (evp_update_end state (r1 AND r2, hp2))
          }
      | S2N_HASH_OTHER n \<Rightarrow> Some (S2N_FAILURE S2N_ERR_HASH_INVALID_ALGORITHM, state, hp))"

definition evp_digest_end ::
  "int \<Rightarrow> 'c s2n_hash_state \<Rightarrow> 'h evp_heap \<Rightarrow> bytes
     \<Rightarrow> s2n_rc \<times> 'c s2n_hash_state \<times> 'h evp_heap \<times> bytes" where
  "evp_digest_end r state hp out =
     (if r = 0 then (S2N_FAILURE S2N_ERR_HASH_DIGEST_FAILED, state, hp, out)
      else (S2N_SUCCESS, state, hp, out))"

definition evp_digest_primary ::
  "('c, 'h) openssl \<Rightarrow> 'c s2n_hash_state \<Rightarrow> 'h evp_heap \<Rightarrow> bytes
     \<Rightarrow> (s2n_rc \<times> 'c s2n_hash_state \<times> 'h evp_heap \<times> bytes) option" where
  "evp_digest_primary lib state hp out =
     do {
       ((r, d), hp1) \<leftarrow> EVP_DigestFinal_ex lib (evp_ctx state) hp;
       Some (evp_digest_end r state hp1 (write_at out 0 d))
     }"

text \<open>
  \<open>s2n_evp_hash_digest(state, out, size)\<close>. The third argument of
  \<open>EVP_DigestFinal_ex\<close> only receives the number of bytes written, so the locals
  \<open>sha1_primary_digest_size\<close> and \<open>md5_secondary_digest_size\<close> do not appear.
\<close>

definition s2n_evp_hash_digest ::
  "('c, 'h) openssl \<Rightarrow> 'c s2n_hash_state \<Rightarrow> 'h evp_heap \<Rightarrow> bytes \<Rightarrow> 32 word
     \<Rightarrow> (s2n_rc \<times> 'c s2n_hash_state \<times> 'h evp_heap \<times> bytes) option" where
  "s2n_evp_hash_digest lib state hp out sz =
     (case s2n_hash_digest_size (alg state) of
        Inl e \<Rightarrow> Some (S2N_FAILURE e, state, hp, out)
      | Inr expected_digest_size \<Rightarrow>
          if unat sz \<noteq> unat expected_digest_size
          then Some (S2N_FAILURE S2N_ERR_SIZE_MISMATCH, state, hp, out)
          else
            (case alg state of
               S2N_HASH_NONE \<Rightarrow> Some (evp_digest_end 1 state hp out)
             | S2N_HASH_MD5 \<Rightarrow> evp_digest_primary lib state hp out
             | S2N_HASH_SHA1 \<Rightarrow> evp_digest_primary lib state hp out
             | S2N_HASH_SHA224 \<Rightarrow> evp_digest_primary lib state hp out
             | S2N_HASH_SHA256 \<Rightarrow> evp_digest_primary lib state hp out
             | S2N_HASH_SHA384 \<Rightarrow> evp_digest_primary lib state hp out
             | S2N_HASH_SHA512 \<Rightarrow> evp_digest_primary lib state hp out
             | S2N_HASH_MD5_SHA1 \<Rightarrow>
                 (case s2n_hash_digest_size S2N_HASH_SHA1 of
                    Inl e \<Rightarrow> Some (S2N_FAILURE e, state, hp, out)
                  | Inr sha1_digest_size \<Rightarrow>
                      do {
                        ((r1, d1), hp1) \<leftarrow> EVP_DigestFinal_ex lib (evp_ctx state) hp;
                        ((r2, d2), hp2) \<leftarrow>
                          EVP_DigestFinal_ex lib (evp_md5_secondary_ctx state) hp1;
                        Some (evp_digest_end (r1 AND r2) state hp2
                               (write_at (write_at out MD5_DIGEST_LENGTH d1) 0 d2))
                      })
             | S2N_HASH_OTHER n \<Rightarrow>
                 Some (S2N_FAILURE S2N_ERR_HASH_INVALID_ALGORITHM, state, hp, out)))"

subsection \<open>Backend selection and the override entry point\<close>

definition s2n_hash_set_impl :: "bool \<Rightarrow> 'c s2n_hash_state \<Rightarrow> 'c s2n_hash_state" where
  "s2n_hash_set_impl fips state =
     (if fips then state\<lparr>hash_impl := Some s2n_evp_hash\<rparr>
      else state\<lparr>hash_impl := Some s2n_low_level_hash\<rparr>)"

text \<open>
  The member \<open>.allow_md5_for_fips\<close> of a descriptor; it is \<open>NULL\<close> in
  \<open>s2n_low_level_hash\<close>.
\<close>

fun impl_allow_md5_for_fips ::
  "s2n_hash \<Rightarrow> ('c s2n_hash_state \<Rightarrow> s2n_rc \<times> 'c s2n_hash_state) option" where
  "impl_allow_md5_for_fips s2n_low_level_hash = None"
| "impl_allow_md5_for_fips s2n_evp_hash = Some s2n_evp_hash_allow_md5_for_fips"

text \<open>
  The public functions dereference \<open>state->hash_impl\<close>; where it is null the C code
  has no defined behaviour and the result is \<open>None\<close>.
\<close>

definition s2n_hash_allow_md5_for_fips ::
  "bool \<Rightarrow> 'c s2n_hash_state \<Rightarrow> (s2n_rc \<times> 'c s2n_hash_state) option" where
  "s2n_hash_allow_md5_for_fips fips state =
     (let state1 = s2n_hash_set_impl fips state
      in case hash_impl state1 of
           None \<Rightarrow> None
         | Some impl \<Rightarrow>
             (case impl_allow_md5_for_fips impl of
                None \<Rightarrow> Some (S2N_FAILURE S2N_ERR_NULL, state1)
              | Some f \<Rightarrow> Some (f state1)))"

subsection \<open>The EVP backend: copy, reset and free\<close>

definition evp_copy_end ::
  "'c s2n_hash_state \<Rightarrow> 'c s2n_hash_state \<Rightarrow> int \<times> 'h evp_heap
     \<Rightarrow> s2n_rc \<times> 'c s2n_hash_state \<times> 'h evp_heap" where
  "evp_copy_end to from rh =
     (let (r, hp) = rh
      in if r = 0 then (S2N_FAILURE S2N_ERR_HASH_COPY_FAILED, to, hp)
         else (S2N_SUCCESS, to\<lparr>hash_impl := hash_impl from, alg := alg from\<rparr>, hp))"

text \<open>
  The statement that opens the branches of MD5 and of MD5\_SHA1 in
  \<open>s2n_evp_hash_copy\<close>: the override of the source is applied to the destination
  through the public entry point.
\<close>

definition evp_copy_allow ::
  "bool \<Rightarrow> 'c s2n_hash_state \<Rightarrow> 'c s2n_hash_state \<Rightarrow> (s2n_rc \<times> 'c s2n_hash_state) option" where
  "evp_copy_allow fips to from =
     (if s2n_digest_is_md5_allowed_for_fips fips (evp (high_level from))
      then s2n_hash_allow_md5_for_fips fips to
      else Some (S2N_SUCCESS, to))"

text \<open>
  The branch the plain algorithms share (MD5 falls through into it): the duplication of
  the primary handle, with the state of the handle that the model keeps in \<open>to\<close>.
\<close>

definition evp_copy_primary ::
  "('c, 'h) openssl \<Rightarrow> 'c s2n_hash_state \<Rightarrow> 'c s2n_hash_state \<Rightarrow> 'h evp_heap
     \<Rightarrow> (s2n_rc \<times> 'c s2n_hash_state \<times> 'h evp_heap) option" where
  "evp_copy_primary lib to from hp =
     do {
       (r, hp1) \<leftarrow> EVP_MD_CTX_copy_ex lib (evp_ctx to) (evp_ctx from) hp;
       Some (evp_copy_end
               (set_evp (handle_state_copied r (evp (high_level to)) (evp (high_level from))) to)
               from (r, hp1))
     }"

text \<open>
  \<open>s2n_evp_hash_copy(to, from)\<close> changes \<open>to\<close> and the heap; \<open>to\<close> and \<open>from\<close> are
  two structures. After each \<open>EVP_MD_CTX_copy_ex\<close> the override of the destination
  handle is what \<open>handle_state_copied\<close> gives.
\<close>

definition s2n_evp_hash_copy ::
  "('c, 'h) openssl \<Rightarrow> bool \<Rightarrow> 'c s2n_hash_state \<Rightarrow> 'c s2n_hash_state \<Rightarrow> 'h evp_heap
     \<Rightarrow> (s2n_rc \<times> 'c s2n_hash_state \<times> 'h evp_heap) option" where
  "s2n_evp_hash_copy lib fips to from hp =
     (case alg from of
        S2N_HASH_NONE \<Rightarrow> Some (evp_copy_end to from (1, hp))
      | S2N_HASH_MD5 \<Rightarrow>
          do {
            (rc, to1) \<leftarrow> evp_copy_allow fips to from;
            if rc \<noteq> S2N_SUCCESS then Some (rc, to1, hp)
            else evp_copy_primary lib to1 from hp
          }
      | S2N_HASH_SHA1 \<Rightarrow> evp_copy_primary lib to from hp
      | S2N_HASH_SHA224 \<Rightarrow> evp_copy_primary lib to from hp
      | S2N_HASH_SHA256 \<Rightarrow> evp_copy_primary lib to from hp
      | S2N_HASH_SHA384 \<Rightarrow> evp_copy_primary lib to from hp
      | S2N_HASH_SHA512 \<Rightarrow> evp_copy_primary lib to from hp
      | S2N_HASH_MD5_SHA1 \<Rightarrow>
          do {
            (rc, to1) \<leftarrow> evp_copy_allow fips to from;
            if rc \<noteq> S2N_SUCCESS then Some (rc, to1, hp)
            else
              do {
                (r1, hp1) \<leftarrow> EVP_MD_CTX_copy_ex lib (evp_ctx to1) (evp_ctx from) hp;
                (r2, hp2) \<leftarrow>
                  EVP_MD_CTX_copy_ex lib (evp_md5_secondary_ctx to1)
                    (evp_md5_secondary_ctx from) hp1;
                Some (evp_copy_end
                        (set_evp_md5_secondary
                           (handle_state_copied r2 (evp_md5_secondary (high_level to1))
                              (evp_md5_secondary (high_level from)))
                           (set_evp
                              (handle_state_copied r1 (evp (high_level to1))
                                 (evp (high_level from)))
                              to1))
                        from (r1 AND r2, hp2))
              }
          }
      | S2N_HASH_OTHER n \<Rightarrow> Some (S2N_FAILURE S2N_ERR_HASH_INVALID_ALGORITHM, to, hp))"

text \<open>
  \<open>s2n_evp_hash_reset\<close>: \<open>reset_md5_for_fips\<close> is read before the handles are reset;
  after each \<open>S2N_EVP_MD_CTX_RESET\<close> the override of the handle is what
  \<open>handle_state_reset\<close> gives (\<open>state0\<close> is the state after the resets).
\<close>

definition s2n_evp_hash_reset ::
  "('c, 'h) openssl \<Rightarrow> bool \<Rightarrow> 'c s2n_hash_state \<Rightarrow> 'h evp_heap
     \<Rightarrow> (s2n_rc \<times> 'c s2n_hash_state \<times> 'h evp_heap) option" where
  "s2n_evp_hash_reset lib fips state hp =
     (let reset_md5_for_fips =
            (alg state = S2N_HASH_MD5
               \<and> s2n_digest_is_md5_allowed_for_fips fips (evp (high_level state)))
      in do {
           (r1, hp1) \<leftarrow> S2N_EVP_MD_CTX_RESET lib (evp_ctx state) hp;
           (r, state0, hp2) \<leftarrow>
             (if alg state = S2N_HASH_MD5_SHA1
              then do {
                     (r2, hp') \<leftarrow> S2N_EVP_MD_CTX_RESET lib (evp_md5_secondary_ctx state) hp1;
                     Some (r1 AND r2,
                           set_evp_md5_secondary
                             (handle_state_reset r2 (evp_md5_secondary (high_level state)))
                             (set_evp (handle_state_reset r1 (evp (high_level state))) state),
                           hp')
                   }
              else Some (r1, set_evp (handle_state_reset r1 (evp (high_level state))) state,
                         hp1));
           if r = 0 then Some (S2N_FAILURE S2N_ERR_HASH_WIPE_FAILED, state0, hp2)
           else
             do {
               (rc, state1) \<leftarrow>
                 (if reset_md5_for_fips then s2n_hash_allow_md5_for_fips fips state0
                  else Some (S2N_SUCCESS, state0));
               if rc \<noteq> S2N_SUCCESS then Some (rc, state1, hp2)
               else s2n_evp_hash_init lib state1 hp2 (alg state1)
             }
         })"

definition s2n_evp_hash_free ::
  "'c s2n_hash_state \<Rightarrow> 'h evp_heap \<Rightarrow> (s2n_rc \<times> 'c s2n_hash_state \<times> 'h evp_heap) option" where
  "s2n_evp_hash_free state hp =
     do {
       hp1 \<leftarrow> S2N_EVP_MD_CTX_FREE (evp_ctx state) hp;
       hp2 \<leftarrow> S2N_EVP_MD_CTX_FREE (evp_md5_secondary_ctx state) hp1;
       Some (S2N_SUCCESS, set_evp_md5_secondary_ctx None (set_evp_ctx None state), hp2)
     }"

subsection \<open>The descriptors and the public functions\<close>

text \<open>
  The remaining members of the two descriptors. The low-level functions touch no
  handle: the heap passes through them.
\<close>

definition no_handles ::
  "s2n_rc \<times> 's \<Rightarrow> 'h evp_heap \<Rightarrow> (s2n_rc \<times> 's \<times> 'h evp_heap) option" where
  "no_handles r hp = Some (fst r, snd r, hp)"

fun impl_new ::
  "s2n_hash \<Rightarrow> (('c, 'h) openssl \<Rightarrow> 'c s2n_hash_state \<Rightarrow> 'h evp_heap
     \<Rightarrow> (s2n_rc \<times> 'c s2n_hash_state \<times> 'h evp_heap) option) option" where
  "impl_new s2n_low_level_hash =
     Some (\<lambda>lib state hp. no_handles (s2n_low_level_hash_new state) hp)"
| "impl_new s2n_evp_hash = Some (\<lambda>lib state hp. Some (s2n_evp_hash_new lib state hp))"

fun impl_init ::
  "s2n_hash \<Rightarrow> (('c, 'h) openssl \<Rightarrow> 'c s2n_hash_state \<Rightarrow> 'h evp_heap \<Rightarrow> s2n_hash_algorithm
     \<Rightarrow> (s2n_rc \<times> 'c s2n_hash_state \<times> 'h evp_heap) option) option" where
  "impl_init s2n_low_level_hash =
     Some (\<lambda>lib state hp a. no_handles (s2n_low_level_hash_init lib state a) hp)"
| "impl_init s2n_evp_hash = Some s2n_evp_hash_init"

fun impl_update ::
  "s2n_hash \<Rightarrow> (('c, 'h) openssl \<Rightarrow> 'c s2n_hash_state \<Rightarrow> 'h evp_heap \<Rightarrow> bytes
     \<Rightarrow> (s2n_rc \<times> 'c s2n_hash_state \<times> 'h evp_heap) option) option" where
  "impl_update s2n_low_level_hash =
     Some (\<lambda>lib state hp data. no_handles (s2n_low_level_hash_update lib state data) hp)"
| "impl_update s2n_evp_hash = Some s2n_evp_hash_update"

fun impl_digest ::
  "s2n_hash \<Rightarrow> (('c, 'h) openssl \<Rightarrow> 'c s2n_hash_state \<Rightarrow> 'h evp_heap \<Rightarrow> bytes \<Rightarrow> 32 word
     \<Rightarrow> (s2n_rc \<times> 'c s2n_hash_state \<times> 'h evp_heap \<times> bytes) option) option" where
  "impl_digest s2n_low_level_hash =
     Some (\<lambda>lib state hp out sz.
             (let (rc, state1, out1) = s2n_low_level_hash_digest lib state out sz
              in Some (rc, state1, hp, out1)))"
| "impl_digest s2n_evp_hash = Some s2n_evp_hash_digest"

fun impl_copy ::
  "s2n_hash \<Rightarrow> (('c, 'h) openssl \<Rightarrow> bool \<Rightarrow> 'c s2n_hash_state \<Rightarrow> 'c s2n_hash_state
     \<Rightarrow> 'h evp_heap \<Rightarrow> (s2n_rc \<times> 'c s2n_hash_state \<times> 'h evp_heap) option) option" where
  "impl_copy s2n_low_level_hash =
     Some (\<lambda>lib fips to from hp. no_handles (s2n_low_level_hash_copy to from) hp)"
| "impl_copy s2n_evp_hash = Some s2n_evp_hash_copy"

fun impl_reset ::
  "s2n_hash \<Rightarrow> (('c, 'h) openssl \<Rightarrow> bool \<Rightarrow> 'c s2n_hash_state \<Rightarrow> 'h evp_heap
     \<Rightarrow> (s2n_rc \<times> 'c s2n_hash_state \<times> 'h evp_heap) option) option" where
  "impl_reset s2n_low_level_hash =
     Some (\<lambda>lib fips state hp. no_handles (s2n_low_level_hash_reset lib state) hp)"
| "impl_reset s2n_evp_hash = Some s2n_evp_hash_reset"

fun impl_free ::
  "s2n_hash \<Rightarrow> ('c s2n_hash_state \<Rightarrow> 'h evp_heap
     \<Rightarrow> (s2n_rc \<times> 'c s2n_hash_state \<times> 'h evp_heap) option) option" where
  "impl_free s2n_low_level_hash = Some (\<lambda>state hp. no_handles (s2n_low_level_hash_free state) hp)"
| "impl_free s2n_evp_hash = Some s2n_evp_hash_free"

definition s2n_hash_new ::
  "('c, 'h) openssl \<Rightarrow> bool \<Rightarrow> 'c s2n_hash_state \<Rightarrow> 'h evp_heap
     \<Rightarrow> (s2n_rc \<times> 'c s2n_hash_state \<times> 'h evp_heap) option" where
  "s2n_hash_new lib fips state hp =
     (let state1 = s2n_hash_set_impl fips state
      in case hash_impl state1 of
           None \<Rightarrow> None
         | Some impl \<Rightarrow>
             (case impl_new impl of
                None \<Rightarrow> Some (S2N_FAILURE S2N_ERR_NULL, state1, hp)
              | Some f \<Rightarrow> f lib state1 hp))"

definition s2n_hash_init ::
  "('c, 'h) openssl \<Rightarrow> bool \<Rightarrow> 'c s2n_hash_state \<Rightarrow> 'h evp_heap \<Rightarrow> s2n_hash_algorithm
     \<Rightarrow> (s2n_rc \<times> 'c s2n_hash_state \<times> 'h evp_heap) option" where
  "s2n_hash_init lib fips state hp a =
     (let state1 = s2n_hash_set_impl fips state
      in if c_int_of (s2n_hash_is_available fips a) \<noteq> 0
            \<or> (a = S2N_HASH_MD5
                 \<and> s2n_digest_is_md5_allowed_for_fips fips (evp (high_level state1)))
         then
           (case hash_impl state1 of
              None \<Rightarrow> None
            | Some impl \<Rightarrow>
                (case impl_init impl of
                   None \<Rightarrow> Some (S2N_FAILURE S2N_ERR_NULL, state1, hp)
                 | Some f \<Rightarrow> f lib state1 hp a))
         else Some (S2N_FAILURE S2N_ERR_HASH_INVALID_ALGORITHM, state1, hp))"

definition s2n_hash_update ::
  "('c, 'h) openssl \<Rightarrow> 'c s2n_hash_state \<Rightarrow> 'h evp_heap \<Rightarrow> bytes
     \<Rightarrow> (s2n_rc \<times> 'c s2n_hash_state \<times> 'h evp_heap) option" where
  "s2n_hash_update lib state hp data =
     (case hash_impl state of
        None \<Rightarrow> None
      | Some impl \<Rightarrow>
          (case impl_update impl of
             None \<Rightarrow> Some (S2N_FAILURE S2N_ERR_NULL, state, hp)
           | Some f \<Rightarrow> f lib state hp data))"

definition s2n_hash_digest ::
  "('c, 'h) openssl \<Rightarrow> 'c s2n_hash_state \<Rightarrow> 'h evp_heap \<Rightarrow> bytes \<Rightarrow> 32 word
     \<Rightarrow> (s2n_rc \<times> 'c s2n_hash_state \<times> 'h evp_heap \<times> bytes) option" where
  "s2n_hash_digest lib state hp out sz =
     (case hash_impl state of
        None \<Rightarrow> None
      | Some impl \<Rightarrow>
          (case impl_digest impl of
             None \<Rightarrow> Some (S2N_FAILURE S2N_ERR_NULL, state, hp, out)
           | Some f \<Rightarrow> f lib state hp out sz))"

text \<open>
  \<open>s2n_hash_copy\<close> reads \<open>from->hash_impl\<close>. The mode is read only by the override
  query and the override entry point that \<open>s2n_evp_hash_copy\<close> may call.
\<close>

definition s2n_hash_copy ::
  "('c, 'h) openssl \<Rightarrow> bool \<Rightarrow> 'c s2n_hash_state \<Rightarrow> 'c s2n_hash_state \<Rightarrow> 'h evp_heap
     \<Rightarrow> (s2n_rc \<times> 'c s2n_hash_state \<times> 'h evp_heap) option" where
  "s2n_hash_copy lib fips to from hp =
     (case hash_impl from of
        None \<Rightarrow> None
      | Some impl \<Rightarrow>
          (case impl_copy impl of
             None \<Rightarrow> Some (S2N_FAILURE S2N_ERR_NULL, to, hp)
           | Some f \<Rightarrow> f lib fips to from hp))"

definition s2n_hash_reset ::
  "('c, 'h) openssl \<Rightarrow> bool \<Rightarrow> 'c s2n_hash_state \<Rightarrow> 'h evp_heap
     \<Rightarrow> (s2n_rc \<times> 'c s2n_hash_state \<times> 'h evp_heap) option" where
  "s2n_hash_reset lib fips state hp =
     (let state1 = s2n_hash_set_impl fips state
      in case hash_impl state1 of
           None \<Rightarrow> None
         | Some impl \<Rightarrow>
             (case impl_reset impl of
                None \<Rightarrow> Some (S2N_FAILURE S2N_ERR_NULL, state1, hp)
              | Some f \<Rightarrow> f lib fips state1 hp))"

definition s2n_hash_free ::
  "bool \<Rightarrow> 'c s2n_hash_state \<Rightarrow> 'h evp_heap
     \<Rightarrow> (s2n_rc \<times> 'c s2n_hash_state \<times> 'h evp_heap) option" where
  "s2n_hash_free fips state hp =
     (let state1 = s2n_hash_set_impl fips state
      in case hash_impl state1 of
           None \<Rightarrow> None
         | Some impl \<Rightarrow>
             (case impl_free impl of
                None \<Rightarrow> Some (S2N_FAILURE S2N_ERR_NULL, state1, hp)
              | Some f \<Rightarrow> f state1 hp))"

subsection \<open>A caller's run: updates, then digest\<close>

text \<open>
  A caller feeds the pieces \<open>ds\<close> with one update call each and asks for the digest;
  it stops at the first call that fails. The run yields the code of the last call made
  and the buffer \<open>out\<close> as the calls leave it.
\<close>

fun low_level_updates ::
  "('c, 'h) openssl \<Rightarrow> 'c s2n_hash_state \<Rightarrow> bytes list \<Rightarrow> s2n_rc \<times> 'c s2n_hash_state" where
  "low_level_updates lib state [] = (S2N_SUCCESS, state)"
| "low_level_updates lib state (d # ds) =
     (case s2n_low_level_hash_update lib state d of
        (S2N_SUCCESS, state1) \<Rightarrow> low_level_updates lib state1 ds
      | (S2N_FAILURE e, state1) \<Rightarrow> (S2N_FAILURE e, state1))"

definition low_level_run ::
  "('c, 'h) openssl \<Rightarrow> 'c s2n_hash_state \<Rightarrow> bytes list \<Rightarrow> bytes \<Rightarrow> 32 word
     \<Rightarrow> s2n_rc \<times> bytes" where
  "low_level_run lib state ds out sz =
     (case low_level_updates lib state ds of
        (S2N_SUCCESS, state1) \<Rightarrow>
          (let (rc, state2, out1) = s2n_low_level_hash_digest lib state1 out sz in (rc, out1))
      | (S2N_FAILURE e, state1) \<Rightarrow> (S2N_FAILURE e, out))"

fun evp_updates ::
  "('c, 'h) openssl \<Rightarrow> 'c s2n_hash_state \<Rightarrow> 'h evp_heap \<Rightarrow> bytes list
     \<Rightarrow> (s2n_rc \<times> 'c s2n_hash_state \<times> 'h evp_heap) option" where
  "evp_updates lib state hp [] = Some (S2N_SUCCESS, state, hp)"
| "evp_updates lib state hp (d # ds) =
     (case s2n_evp_hash_update lib state hp d of
        None \<Rightarrow> None
      | Some (S2N_SUCCESS, state1, hp1) \<Rightarrow> evp_updates lib state1 hp1 ds
      | Some (S2N_FAILURE e, state1, hp1) \<Rightarrow> Some (S2N_FAILURE e, state1, hp1))"

definition evp_run ::
  "('c, 'h) openssl \<Rightarrow> 'c s2n_hash_state \<Rightarrow> 'h evp_heap \<Rightarrow> bytes list \<Rightarrow> bytes \<Rightarrow> 32 word
     \<Rightarrow> (s2n_rc \<times> bytes) option" where
  "evp_run lib state hp ds out sz =
     (case evp_updates lib state hp ds of
        None \<Rightarrow> None
      | Some (S2N_SUCCESS, state1, hp1) \<Rightarrow>
          (case s2n_evp_hash_digest lib state1 hp1 out sz of
             None \<Rightarrow> None
           | Some (rc, state2, hp2, out1) \<Rightarrow> Some (rc, out1))
      | Some (S2N_FAILURE e, state1, hp1) \<Rightarrow> Some (S2N_FAILURE e, out))"

subsection \<open>A library to run the model on\<close>

text \<open>
  The theorems below hold for every library \<open>lib\<close>. To run the model on concrete
  inputs, \<open>table_lib H\<close> is a library whose contexts hold the bytes fed so far and
  whose finalisation looks the digest up in \<open>H\<close>; it reports failure where \<open>H\<close> has
  no answer. \<open>known_answers\<close> holds the two published digests of the input
  \<open>abc\<close>.
\<close>

definition table_lib ::
  "(evp_md \<Rightarrow> bytes \<Rightarrow> bytes option) \<Rightarrow> (bytes, evp_md option \<times> bytes) openssl" where
  "table_lib H =
     \<lparr> Native_Init = (\<lambda>md. (1, [])),
       Native_Update = (\<lambda>md c data. (1, c @ data)),
       Native_Final = (\<lambda>md c. case H md c of None \<Rightarrow> (0, [], c) | Some d \<Rightarrow> (1, d, [])),
       MD_CTX_fresh = (None, []),
       DigestInit_ex = (\<lambda>h md. (1, (Some md, []))),
       DigestUpdate = (\<lambda>h data. case fst h of
                          None \<Rightarrow> (0, h)
                        | Some md \<Rightarrow> (1, (Some md, snd h @ data))),
       DigestFinal_ex = (\<lambda>h. case fst h of
                          None \<Rightarrow> (0, [], h)
                        | Some md \<Rightarrow>
                            (case H md (snd h) of
                               None \<Rightarrow> (0, [], h)
                             | Some d \<Rightarrow> (1, d, (Some md, [])))),
       MD_CTX_copy_ex = (\<lambda>hout hin. (1, hin)),
       MD_CTX_reset = (\<lambda>h. (1, (None, []))) \<rparr>"

definition abc :: bytes where
  "abc = [0x61, 0x62, 0x63]"

definition md5_abc :: bytes where
  "md5_abc = [0x90, 0x01, 0x50, 0x98, 0x3c, 0xd2, 0x4f, 0xb0,
              0xd6, 0x96, 0x3f, 0x7d, 0x28, 0xe1, 0x7f, 0x72]"

definition sha1_abc :: bytes where
  "sha1_abc = [0xa9, 0x99, 0x3e, 0x36, 0x47, 0x06, 0x81, 0x6a, 0xba, 0x3e,
               0x25, 0x71, 0x78, 0x50, 0xc2, 0x6c, 0x9c, 0xd0, 0xd8, 0x9d]"

definition known_answers :: "evp_md \<Rightarrow> bytes \<Rightarrow> bytes option" where
  "known_answers md data =
     (if data = abc \<and> md = EVP_md5 then Some md5_abc
      else if data = abc \<and> md = EVP_sha1 then Some sha1_abc
      else None)"

definition kat_lib :: "(bytes, evp_md option \<times> bytes) openssl" where
  "kat_lib = table_lib known_answers"

text \<open>A state and a heap to start from: no backend chosen, no handle, nothing live.\<close>

definition blank_state :: "bytes s2n_hash_state" where
  "blank_state =
     \<lparr> hash_impl = None, alg = S2N_HASH_NONE,
       low_level = \<lparr> md5 = [], sha1 = [], sha224 = [], sha256 = [], sha384 = [], sha512 = [],
                     md5_sha1_md5 = [], md5_sha1_sha1 = [] \<rparr>,
       high_level = \<lparr> evp = \<lparr> ctx = None, md5_allowed_for_fips = False \<rparr>,
                      evp_md5_secondary = \<lparr> ctx = None, md5_allowed_for_fips = False \<rparr> \<rparr> \<rparr>"

definition blank_heap :: "(evp_md option \<times> bytes) evp_heap" where
  "blank_heap = \<lparr> live = Map.empty, avail = [0, 1, 2, 3] \<rparr>"

text \<open>
  \<open>refusing_lib\<close> is \<open>kat_lib\<close> with the routines that set a context up (init,
  copy, reset) reporting failure and leaving the context alone.
\<close>

definition refusing_lib :: "(bytes, evp_md option \<times> bytes) openssl" where
  "refusing_lib =
     kat_lib\<lparr> Native_Init := (\<lambda>md. (0, [])),
              DigestInit_ex := (\<lambda>h md. (0, h)),
              MD_CTX_copy_ex := (\<lambda>hout hin. (0, hout)),
              MD_CTX_reset := (\<lambda>h. (0, h)) \<rparr>"

text \<open>A state of the EVP backend with its two handles, as \<open>s2n_evp_hash_new\<close> leaves it.\<close>

definition evp_state :: "bytes s2n_hash_state" where
  "evp_state = fst (snd (s2n_evp_hash_new kat_lib (s2n_hash_set_impl True blank_state) blank_heap))"

definition evp_heap0 :: "(evp_md option \<times> bytes) evp_heap" where
  "evp_heap0 = snd (snd (s2n_evp_hash_new kat_lib (s2n_hash_set_impl True blank_state) blank_heap))"

text \<open>
  A state created and initialised with SHA1 while FIPS mode is off: its backend is the
  low-level one.
\<close>

definition low_level_sha1_state :: "bytes s2n_hash_state" where
  "low_level_sha1_state =
     (case s2n_hash_new kat_lib False blank_state blank_heap of
        None \<Rightarrow> blank_state
      | Some (rc, state1, hp1) \<Rightarrow>
          (case s2n_hash_init kat_lib False state1 hp1 S2N_HASH_SHA1 of
             None \<Rightarrow> blank_state
           | Some (rc, state2, hp2) \<Rightarrow> state2))"

text \<open>
  A handle field is in order when it is null or holds the address of a live context.
\<close>

definition handle_ok :: "'h evp_heap \<Rightarrow> addr option \<Rightarrow> bool" where
  "handle_ok hp p = (case p of None \<Rightarrow> True | Some a \<Rightarrow> live hp a \<noteq> None)"

text \<open>A heap on which the second acquisition of \<open>s2n_evp_hash_new\<close> fails.\<close>

definition one_slot_heap :: "(evp_md option \<times> bytes) evp_heap" where
  "one_slot_heap = \<lparr> live = Map.empty, avail = [0] \<rparr>"

text \<open>
  Two states of the EVP backend in FIPS mode, each with its own two handles: a source
  with the override set, initialised with \<open>a\<close> and fed \<open>abc\<close>, and a destination
  that is new.
\<close>

definition evp_src ::
  "s2n_hash_algorithm \<Rightarrow> bytes s2n_hash_state \<times> (evp_md option \<times> bytes) evp_heap" where
  "evp_src a =
     (case s2n_hash_allow_md5_for_fips True evp_state of
        None \<Rightarrow> (evp_state, evp_heap0)
      | Some (rc1, state1) \<Rightarrow>
          (case s2n_evp_hash_init kat_lib state1 evp_heap0 a of
             None \<Rightarrow> (evp_state, evp_heap0)
           | Some (rc2, state2, hp2) \<Rightarrow>
               (case s2n_evp_hash_update kat_lib state2 hp2 abc of
                  None \<Rightarrow> (evp_state, evp_heap0)
                | Some (rc3, state3, hp3) \<Rightarrow> (state3, hp3))))"


text \<open>
  The low-level state that is new, initialised with \<open>a\<close> and fed \<open>abc\<close>.
\<close>

definition low_level_src :: "s2n_hash_algorithm \<Rightarrow> bytes s2n_hash_state" where
  "low_level_src a =
     (case s2n_low_level_hash_init kat_lib (snd (s2n_low_level_hash_new blank_state)) a of
        (rc, state1) \<Rightarrow> snd (s2n_low_level_hash_update kat_lib state1 abc))"

text \<open>
  What a run reads of a state: the tag and the contexts the tag selects, that is the
  members of the union in the low-level backend and the contents behind the handles in
  the EVP backend.
\<close>

fun low_level_ctxs :: "s2n_hash_algorithm \<Rightarrow> 'c s2n_hash_low_level_digest \<Rightarrow> 'c list" where
  "low_level_ctxs S2N_HASH_NONE d = []"
| "low_level_ctxs S2N_HASH_MD5 d = [md5 d]"
| "low_level_ctxs S2N_HASH_SHA1 d = [sha1 d]"
| "low_level_ctxs S2N_HASH_SHA224 d = [sha224 d]"
| "low_level_ctxs S2N_HASH_SHA256 d = [sha256 d]"
| "low_level_ctxs S2N_HASH_SHA384 d = [sha384 d]"
| "low_level_ctxs S2N_HASH_SHA512 d = [sha512 d]"
| "low_level_ctxs S2N_HASH_MD5_SHA1 d = [md5_sha1_sha1 d, md5_sha1_md5 d]"
| "low_level_ctxs (S2N_HASH_OTHER n) d = []"

definition content :: "'h evp_heap \<Rightarrow> addr option \<Rightarrow> 'h option" where
  "content hp p = (case p of None \<Rightarrow> None | Some a \<Rightarrow> live hp a)"

fun evp_ctxs :: "s2n_hash_algorithm \<Rightarrow> s2n_hash_evp_digest \<Rightarrow> 'h evp_heap \<Rightarrow> 'h option list" where
  "evp_ctxs S2N_HASH_NONE d hp = []"
| "evp_ctxs S2N_HASH_MD5_SHA1 d hp =
     [content hp (ctx (evp d)), content hp (ctx (evp_md5_secondary d))]"
| "evp_ctxs (S2N_HASH_OTHER n) d hp = []"
| "evp_ctxs a d hp = [content hp (ctx (evp d))]"

definition low_level_same :: "'c s2n_hash_state \<Rightarrow> 'c s2n_hash_state \<Rightarrow> bool" where
  "low_level_same s s' =
     (alg s = alg s'
      \<and> low_level_ctxs (alg s) (low_level s) = low_level_ctxs (alg s) (low_level s'))"

text \<open>
  Two EVP states look the same to a run when they have the same tag and the same
  contents behind the handles the tag selects, and, for MD5\_SHA1, each has two
  different handles.
\<close>

definition evp_same ::
  "'c s2n_hash_state \<Rightarrow> 'h evp_heap \<Rightarrow> 'c s2n_hash_state \<Rightarrow> 'h evp_heap \<Rightarrow> bool" where
  "evp_same s hp s' hp' =
     (alg s = alg s'
      \<and> evp_ctxs (alg s) (high_level s) hp = evp_ctxs (alg s) (high_level s') hp'
      \<and> (alg s \<noteq> S2N_HASH_MD5_SHA1
           \<or> (evp_ctx s \<noteq> evp_md5_secondary_ctx s \<and> evp_ctx s' \<noteq> evp_md5_secondary_ctx s')))"

section \<open>Properties\<close>

lemmas digest_length_defs =
  MD5_DIGEST_LENGTH_def SHA_DIGEST_LENGTH_def SHA224_DIGEST_LENGTH_def
  SHA256_DIGEST_LENGTH_def SHA384_DIGEST_LENGTH_def SHA512_DIGEST_LENGTH_def

subsection \<open>The registry and the availability policy\<close>

text \<open>
  C5. \<open>s2n_hash_digest_size\<close> yields 0 for NONE, 16 for MD5, 20 for SHA1, 28 for
  SHA224, 32 for SHA256, 48 for SHA384, 64 for SHA512 and 36 for MD5\_SHA1; for every tag
  outside the enumeration it raises \<open>S2N_ERR_HASH_INVALID_ALGORITHM\<close>. The function
  is a pure function of the tag: it writes the size and nothing else.
\<close>

theorem s2n_hash_digest_size_table:
  "s2n_hash_digest_size S2N_HASH_NONE = Inr 0
   \<and> s2n_hash_digest_size S2N_HASH_MD5 = Inr 16
   \<and> s2n_hash_digest_size S2N_HASH_SHA1 = Inr 20
   \<and> s2n_hash_digest_size S2N_HASH_SHA224 = Inr 28
   \<and> s2n_hash_digest_size S2N_HASH_SHA256 = Inr 32
   \<and> s2n_hash_digest_size S2N_HASH_SHA384 = Inr 48
   \<and> s2n_hash_digest_size S2N_HASH_SHA512 = Inr 64
   \<and> s2n_hash_digest_size S2N_HASH_MD5_SHA1 = Inr 36
   \<and> (\<forall>n. s2n_hash_digest_size (S2N_HASH_OTHER n) = Inl S2N_ERR_HASH_INVALID_ALGORITHM)"
  by (simp add: digest_length_defs)

text \<open>
  C6. \<open>s2n_hash_is_available\<close> returns 0 for MD5 and for MD5\_SHA1 in FIPS mode and 1
  outside it, returns 1 for the six other enumerated algorithms in either mode, and for
  a tag outside the enumeration it raises \<open>S2N_ERR_HASH_INVALID_ALGORITHM\<close>: its
  return value is then -1, which is not the 0 of "unavailable".
\<close>

theorem s2n_hash_is_available_policy:
  "s2n_hash_is_available True S2N_HASH_MD5 = Inr 0
   \<and> s2n_hash_is_available False S2N_HASH_MD5 = Inr 1
   \<and> s2n_hash_is_available True S2N_HASH_MD5_SHA1 = Inr 0
   \<and> s2n_hash_is_available False S2N_HASH_MD5_SHA1 = Inr 1
   \<and> (\<forall>fips. s2n_hash_is_available fips S2N_HASH_NONE = Inr 1
         \<and> s2n_hash_is_available fips S2N_HASH_SHA1 = Inr 1
         \<and> s2n_hash_is_available fips S2N_HASH_SHA224 = Inr 1
         \<and> s2n_hash_is_available fips S2N_HASH_SHA256 = Inr 1
         \<and> s2n_hash_is_available fips S2N_HASH_SHA384 = Inr 1
         \<and> s2n_hash_is_available fips S2N_HASH_SHA512 = Inr 1)
   \<and> (\<forall>fips n. s2n_hash_is_available fips (S2N_HASH_OTHER n)
                  = Inl S2N_ERR_HASH_INVALID_ALGORITHM
              \<and> c_int_of (s2n_hash_is_available fips (S2N_HASH_OTHER n)) = - 1)"
  by (simp add: c_int_of_def)

subsection \<open>The concrete states used by the examples\<close>

lemma evp_state_simps:
  "evp_state = blank_state\<lparr>hash_impl := Some s2n_evp_hash,
      high_level := \<lparr> evp = \<lparr> ctx = Some 0, md5_allowed_for_fips = False \<rparr>,
                      evp_md5_secondary = \<lparr> ctx = Some 1, md5_allowed_for_fips = False \<rparr> \<rparr>\<rparr>"
  "evp_heap0 = \<lparr> live = [0 \<mapsto> (None, []), 1 \<mapsto> (None, [])], avail = [2, 3] \<rparr>"
  by (simp_all add: evp_state_def evp_heap0_def s2n_evp_hash_new_def S2N_EVP_MD_CTX_NEW_def
      blank_heap_def blank_state_def s2n_hash_set_impl_def set_evp_ctx_def
      set_evp_md5_secondary_ctx_def kat_lib_def table_lib_def)

subsection \<open>A failed init keeps the algorithm tag\<close>

text \<open>
  C10. In both backends a failing init leaves \<open>state->alg\<close> as it was: the tag is
  assigned after the check of the return code \<open>r\<close>, and the \<open>default\<close> branch
  returns before it. A succeeding init stores the new tag.
\<close>

theorem init_failure_keeps_alg:
  "(fst (s2n_low_level_hash_init lib state a) \<noteq> S2N_SUCCESS
      \<longrightarrow> alg (snd (s2n_low_level_hash_init lib state a)) = alg state)
   \<and> (fst (s2n_low_level_hash_init lib state a) = S2N_SUCCESS
      \<longrightarrow> alg (snd (s2n_low_level_hash_init lib state a)) = a)
   \<and> (\<forall>rc state1 hp1. s2n_evp_hash_init lib state hp a = Some (rc, state1, hp1)
        \<longrightarrow> (rc \<noteq> S2N_SUCCESS \<longrightarrow> alg state1 = alg state)
          \<and> (rc = S2N_SUCCESS \<longrightarrow> alg state1 = a))"
proof (intro conjI)
  show "fst (s2n_low_level_hash_init lib state a) \<noteq> S2N_SUCCESS
      \<longrightarrow> alg (snd (s2n_low_level_hash_init lib state a)) = alg state"
    by (cases a) (simp_all add: low_level_init_end_def split: prod.splits)
  show "fst (s2n_low_level_hash_init lib state a) = S2N_SUCCESS
      \<longrightarrow> alg (snd (s2n_low_level_hash_init lib state a)) = a"
    by (cases a) (simp_all add: low_level_init_end_def split: prod.splits)
  show "\<forall>rc state1 hp1. s2n_evp_hash_init lib state hp a = Some (rc, state1, hp1)
        \<longrightarrow> (rc \<noteq> S2N_SUCCESS \<longrightarrow> alg state1 = alg state)
          \<and> (rc = S2N_SUCCESS \<longrightarrow> alg state1 = a)"
    by (cases a) (auto simp: evp_init_end_def split: prod.splits if_splits Option.bind_splits)
qed

text \<open>
  With a library whose init routines report failure, init of SHA256 on a SHA1 state
  fails with \<open>S2N_ERR_HASH_INIT_FAILED\<close> in both backends and the tag stays SHA1; with
  a library whose init succeeds the tag becomes SHA256.
\<close>

theorem init_failure_keeps_alg_witness:
  "s2n_low_level_hash_init refusing_lib (blank_state\<lparr>alg := S2N_HASH_SHA1\<rparr>) S2N_HASH_SHA256
     = (S2N_FAILURE S2N_ERR_HASH_INIT_FAILED,
        blank_state\<lparr>alg := S2N_HASH_SHA1\<rparr>)
   \<and> alg (snd (s2n_low_level_hash_init refusing_lib (blank_state\<lparr>alg := S2N_HASH_SHA1\<rparr>)
        S2N_HASH_SHA256)) = S2N_HASH_SHA1
   \<and> map_option (\<lambda>(rc, state1, hp1). (rc, alg state1))
        (s2n_evp_hash_init refusing_lib (evp_state\<lparr>alg := S2N_HASH_SHA1\<rparr>) evp_heap0
           S2N_HASH_SHA256)
       = Some (S2N_FAILURE S2N_ERR_HASH_INIT_FAILED, S2N_HASH_SHA1)
   \<and> fst (s2n_low_level_hash_init kat_lib (blank_state\<lparr>alg := S2N_HASH_SHA1\<rparr>) S2N_HASH_SHA256)
       = S2N_SUCCESS
   \<and> alg (snd (s2n_low_level_hash_init kat_lib (blank_state\<lparr>alg := S2N_HASH_SHA1\<rparr>)
        S2N_HASH_SHA256)) = S2N_HASH_SHA256"
  using init_failure_keeps_alg [of refusing_lib "blank_state\<lparr>alg := S2N_HASH_SHA1\<rparr>"
      S2N_HASH_SHA256 evp_heap0]
    init_failure_keeps_alg [of kat_lib "blank_state\<lparr>alg := S2N_HASH_SHA1\<rparr>"
      S2N_HASH_SHA256 evp_heap0]
  by (simp add: evp_state_simps refusing_lib_def kat_lib_def table_lib_def blank_state_def
      low_level_init_end_def evp_init_end_def EVP_DigestInit_ex_def on_ctx_def)

lemma low_level_sha1_state_simp:
  "low_level_sha1_state = blank_state\<lparr>hash_impl := Some s2n_low_level_hash, alg := S2N_HASH_SHA1\<rparr>"
  by (simp add: low_level_sha1_state_def s2n_hash_new_def s2n_hash_init_def s2n_hash_set_impl_def
      no_handles_def s2n_low_level_hash_new_def c_int_of_def low_level_init_end_def
      kat_lib_def table_lib_def blank_state_def)

subsection \<open>The size check of digest\<close>

text \<open>
  Where the low-level backend checks the size, and the EVP backend for every algorithm,
  a size other than the digest size fails with the size-mismatch error before anything
  is written or finalised.
\<close>

lemma low_level_digest_size_checked:
  assumes "alg state \<noteq> S2N_HASH_NONE" and "s2n_hash_digest_size (alg state) = Inr n"
    and "unat sz \<noteq> unat n"
  shows "s2n_low_level_hash_digest lib state out sz = (S2N_FAILURE S2N_ERR_SIZE_MISMATCH, state, out)"
  using assms by (cases "alg state") (auto simp: s2n_low_level_hash_digest_def digest_length_defs)

lemma evp_digest_size_checked:
  assumes "s2n_hash_digest_size (alg state) = Inr n" and "unat sz \<noteq> unat n"
  shows "s2n_evp_hash_digest lib state hp out sz
           = Some (S2N_FAILURE S2N_ERR_SIZE_MISMATCH, state, hp, out)"
  using assms by (simp add: s2n_evp_hash_digest_def)

text \<open>
  C4. The claim is that digest fails on a size other than the digest size for every
  algorithm, NONE included, in both backends. In \<open>s2n_low_level_hash_digest\<close> the
  branch of \<open>S2N_HASH_NONE\<close> has no \<open>eq_check\<close>: with the tag NONE, whose digest
  size is 0, a call with size 5 succeeds. \<open>s2n_evp_hash_digest\<close> rejects the same
  call.
\<close>

theorem low_level_digest_none_skips_size_check:
  "s2n_hash_digest_size S2N_HASH_NONE = Inr 0
   \<and> s2n_low_level_hash_digest lib (state\<lparr>alg := S2N_HASH_NONE\<rparr>) out 5
       = (S2N_SUCCESS, state\<lparr>alg := S2N_HASH_NONE\<rparr>, out)
   \<and> s2n_evp_hash_digest lib (state\<lparr>alg := S2N_HASH_NONE\<rparr>) hp out 5
       = Some (S2N_FAILURE S2N_ERR_SIZE_MISMATCH, state\<lparr>alg := S2N_HASH_NONE\<rparr>, hp, out)"
  by (simp add: s2n_low_level_hash_digest_def low_level_digest_end_def s2n_evp_hash_digest_def)

subsection \<open>Which public functions choose the backend again\<close>

text \<open>
  C2, as stated, fails for update: on a state whose stored backend is the low-level one,
  \<open>s2n_hash_update\<close> runs the low-level update although FIPS mode, at the moment of
  the call, selects the EVP backend; the EVP update on that state is a different thing
  (it dereferences handles the state does not have).
\<close>

theorem update_uses_stored_backend_counterexample:
  "hash_impl (s2n_hash_set_impl True low_level_sha1_state) = Some s2n_evp_hash
   \<and> s2n_hash_update kat_lib low_level_sha1_state blank_heap abc
       = Some (S2N_SUCCESS,
               low_level_sha1_state\<lparr>low_level := (low_level low_level_sha1_state)\<lparr>sha1 := abc\<rparr>\<rparr>,
               blank_heap)
   \<and> s2n_hash_update kat_lib low_level_sha1_state blank_heap abc
       \<noteq> s2n_evp_hash_update kat_lib (s2n_hash_set_impl True low_level_sha1_state) blank_heap abc"
  by (simp add: low_level_sha1_state_simp s2n_hash_update_def s2n_hash_set_impl_def no_handles_def
      s2n_low_level_hash_update_def low_level_update_end_def s2n_evp_hash_update_def
      evp_update_primary_def EVP_DigestUpdate_def on_ctx_def kat_lib_def table_lib_def blank_state_def)

lemma set_impl_forgets: "s2n_hash_set_impl fips (state\<lparr>hash_impl := i\<rparr>) = s2n_hash_set_impl fips state"
  by (simp add: s2n_hash_set_impl_def)

text \<open>
  C2, amended. \<open>s2n_hash_new\<close>, \<open>s2n_hash_allow_md5_for_fips\<close>,
  \<open>s2n_hash_init\<close>, \<open>s2n_hash_reset\<close> and \<open>s2n_hash_free\<close> choose the backend
  again from the mode at the call: their result does not depend on the stored
  \<open>hash_impl\<close>, and each of them stores the EVP backend and runs the function of the
  EVP backend in FIPS mode, and stores the low-level backend and runs the function of the
  low-level backend otherwise. For \<open>s2n_hash_allow_md5_for_fips\<close> outside FIPS mode
  that function is the null pointer of the low-level descriptor, so the call fails with
  \<open>S2N_ERR_NULL\<close>; \<open>s2n_hash_init\<close> in FIPS mode runs the init of the EVP backend
  when the availability check passes and otherwise fails with the EVP backend stored;
  outside FIPS mode the check always passes. \<open>s2n_hash_update\<close>,
  \<open>s2n_hash_digest\<close> and \<open>s2n_hash_copy\<close> run the backend stored on the state
  (for copy, on the source).
\<close>

theorem dispatcher_backend_resolution:
  "s2n_hash_new lib fips (state\<lparr>hash_impl := i\<rparr>) hp = s2n_hash_new lib fips state hp
   \<and> s2n_hash_allow_md5_for_fips fips (state\<lparr>hash_impl := i\<rparr>) = s2n_hash_allow_md5_for_fips fips state
   \<and> s2n_hash_init lib fips (state\<lparr>hash_impl := i\<rparr>) hp a = s2n_hash_init lib fips state hp a
   \<and> s2n_hash_reset lib fips (state\<lparr>hash_impl := i\<rparr>) hp = s2n_hash_reset lib fips state hp
   \<and> s2n_hash_free fips (state\<lparr>hash_impl := i\<rparr>) hp = s2n_hash_free fips state hp
   \<and> s2n_hash_new lib True state hp
       = Some (s2n_evp_hash_new lib (state\<lparr>hash_impl := Some s2n_evp_hash\<rparr>) hp)
   \<and> s2n_hash_new lib False state hp
       = no_handles (s2n_low_level_hash_new (state\<lparr>hash_impl := Some s2n_low_level_hash\<rparr>)) hp
   \<and> s2n_hash_allow_md5_for_fips True state
       = Some (s2n_evp_hash_allow_md5_for_fips (state\<lparr>hash_impl := Some s2n_evp_hash\<rparr>))
   \<and> s2n_hash_allow_md5_for_fips False state
       = Some (S2N_FAILURE S2N_ERR_NULL, state\<lparr>hash_impl := Some s2n_low_level_hash\<rparr>)
   \<and> s2n_hash_init lib True state hp a
       = (if c_int_of (s2n_hash_is_available True a) \<noteq> 0
             \<or> (a = S2N_HASH_MD5
                  \<and> s2n_digest_is_md5_allowed_for_fips True (evp (high_level state)))
          then s2n_evp_hash_init lib (state\<lparr>hash_impl := Some s2n_evp_hash\<rparr>) hp a
          else Some (S2N_FAILURE S2N_ERR_HASH_INVALID_ALGORITHM,
                     state\<lparr>hash_impl := Some s2n_evp_hash\<rparr>, hp))
   \<and> s2n_hash_init lib False state hp a
       = no_handles
           (s2n_low_level_hash_init lib (state\<lparr>hash_impl := Some s2n_low_level_hash\<rparr>) a) hp
   \<and> s2n_hash_reset lib True state hp
       = s2n_evp_hash_reset lib True (state\<lparr>hash_impl := Some s2n_evp_hash\<rparr>) hp
   \<and> s2n_hash_reset lib False state hp
       = no_handles (s2n_low_level_hash_reset lib (state\<lparr>hash_impl := Some s2n_low_level_hash\<rparr>)) hp
   \<and> s2n_hash_free True state hp
       = s2n_evp_hash_free (state\<lparr>hash_impl := Some s2n_evp_hash\<rparr>) hp
   \<and> s2n_hash_free False state hp
       = no_handles (s2n_low_level_hash_free (state\<lparr>hash_impl := Some s2n_low_level_hash\<rparr>)) hp
   \<and> s2n_hash_update lib (state\<lparr>hash_impl := Some s2n_low_level_hash\<rparr>) hp data
       = no_handles (s2n_low_level_hash_update lib (state\<lparr>hash_impl := Some s2n_low_level_hash\<rparr>) data) hp
   \<and> s2n_hash_update lib (state\<lparr>hash_impl := Some s2n_evp_hash\<rparr>) hp data
       = s2n_evp_hash_update lib (state\<lparr>hash_impl := Some s2n_evp_hash\<rparr>) hp data
   \<and> s2n_hash_digest lib (state\<lparr>hash_impl := Some s2n_low_level_hash\<rparr>) hp out sz
       = (let (rc, state1, out1) =
                s2n_low_level_hash_digest lib (state\<lparr>hash_impl := Some s2n_low_level_hash\<rparr>) out sz
          in Some (rc, state1, hp, out1))
   \<and> s2n_hash_digest lib (state\<lparr>hash_impl := Some s2n_evp_hash\<rparr>) hp out sz
       = s2n_evp_hash_digest lib (state\<lparr>hash_impl := Some s2n_evp_hash\<rparr>) hp out sz
   \<and> s2n_hash_copy lib fips to (state\<lparr>hash_impl := Some s2n_low_level_hash\<rparr>) hp
       = no_handles (s2n_low_level_hash_copy to (state\<lparr>hash_impl := Some s2n_low_level_hash\<rparr>)) hp
   \<and> s2n_hash_copy lib fips to (state\<lparr>hash_impl := Some s2n_evp_hash\<rparr>) hp
       = s2n_evp_hash_copy lib fips to (state\<lparr>hash_impl := Some s2n_evp_hash\<rparr>) hp"
proof -
  have avail: "c_int_of (s2n_hash_is_available False a) \<noteq> 0"
    by (cases a) (simp_all add: c_int_of_def)
  show ?thesis
    by (simp add: s2n_hash_new_def s2n_hash_allow_md5_for_fips_def s2n_hash_init_def
        s2n_hash_reset_def s2n_hash_free_def s2n_hash_update_def s2n_hash_digest_def
        s2n_hash_copy_def set_impl_forgets avail)
      (auto simp: s2n_hash_set_impl_def Let_def)
qed

text \<open>
  On the SHA1 state created with FIPS mode off, in FIPS mode: \<open>s2n_hash_new\<close> stores
  the EVP backend whatever backend is stored, and \<open>s2n_hash_update\<close> keeps and runs the
  stored low-level backend. On a state with two handles: in FIPS mode, with the
  low-level backend stored, \<open>s2n_hash_allow_md5_for_fips\<close> and \<open>s2n_hash_init\<close> run
  and store the EVP backend; outside FIPS mode, with the EVP backend stored,
  \<open>s2n_hash_allow_md5_for_fips\<close> fails on the null pointer of the low-level
  descriptor and \<open>s2n_hash_init\<close> runs the low-level init, and both store the
  low-level backend.
\<close>

theorem dispatcher_backend_resolution_witness:
  "s2n_hash_new kat_lib True (low_level_sha1_state\<lparr>hash_impl := None\<rparr>) blank_heap
     = s2n_hash_new kat_lib True low_level_sha1_state blank_heap
   \<and> map_option (\<lambda>(rc, state1, hp1). (rc, hash_impl state1))
        (s2n_hash_new kat_lib True low_level_sha1_state blank_heap)
     = Some (S2N_SUCCESS, Some s2n_evp_hash)
   \<and> map_option (\<lambda>(rc, state1, hp1). (rc, hash_impl state1))
        (s2n_hash_update kat_lib low_level_sha1_state blank_heap abc)
     = Some (S2N_SUCCESS, Some s2n_low_level_hash)
   \<and> map_option (\<lambda>(rc, state1). (rc, hash_impl state1))
        (s2n_hash_allow_md5_for_fips True (evp_state\<lparr>hash_impl := Some s2n_low_level_hash\<rparr>))
     = Some (S2N_SUCCESS, Some s2n_evp_hash)
   \<and> map_option (\<lambda>(rc, state1). (rc, hash_impl state1))
        (s2n_hash_allow_md5_for_fips False evp_state)
     = Some (S2N_FAILURE S2N_ERR_NULL, Some s2n_low_level_hash)
   \<and> map_option (\<lambda>(rc, state1, hp1). (rc, hash_impl state1, alg state1, live hp1 0))
        (s2n_hash_init kat_lib True (evp_state\<lparr>hash_impl := Some s2n_low_level_hash\<rparr>)
           evp_heap0 S2N_HASH_SHA1)
     = Some (S2N_SUCCESS, Some s2n_evp_hash, S2N_HASH_SHA1, Some (Some EVP_sha1, []))
   \<and> map_option (\<lambda>(rc, state1, hp1). (rc, hash_impl state1, alg state1, live hp1 0))
        (s2n_hash_init kat_lib False evp_state evp_heap0 S2N_HASH_SHA1)
     = Some (S2N_SUCCESS, Some s2n_low_level_hash, S2N_HASH_SHA1, Some (None, []))
   \<and> map_option (\<lambda>(rc, state1, hp1). (rc, hash_impl state1, alg state1))
        (s2n_hash_init kat_lib True (evp_state\<lparr>hash_impl := Some s2n_low_level_hash\<rparr>)
           evp_heap0 S2N_HASH_MD5)
     = Some (S2N_FAILURE S2N_ERR_HASH_INVALID_ALGORITHM, Some s2n_evp_hash, S2N_HASH_NONE)"
proof -
  note d = dispatcher_backend_resolution
  note new_any = d [THEN conjunct1]
  note new_fips = d [THEN conjunct2, THEN conjunct2, THEN conjunct2, THEN conjunct2, THEN conjunct2, THEN conjunct1]
  note allow_fips = d [THEN conjunct2, THEN conjunct2, THEN conjunct2, THEN conjunct2, THEN conjunct2, THEN conjunct2, THEN conjunct2, THEN conjunct1]
  note allow_plain = d [THEN conjunct2, THEN conjunct2, THEN conjunct2, THEN conjunct2, THEN conjunct2, THEN conjunct2, THEN conjunct2, THEN conjunct2, THEN conjunct1]
  note init_fips = d [THEN conjunct2, THEN conjunct2, THEN conjunct2, THEN conjunct2, THEN conjunct2, THEN conjunct2, THEN conjunct2, THEN conjunct2, THEN conjunct2, THEN conjunct1]
  note init_plain = d [THEN conjunct2, THEN conjunct2, THEN conjunct2, THEN conjunct2, THEN conjunct2, THEN conjunct2, THEN conjunct2, THEN conjunct2, THEN conjunct2, THEN conjunct2, THEN conjunct1]
  note update_stored = dispatcher_backend_resolution
    [where lib = kat_lib and state = low_level_sha1_state and hp = blank_heap and data = abc,
     THEN conjunct2, THEN conjunct2, THEN conjunct2, THEN conjunct2, THEN conjunct2, THEN conjunct2, THEN conjunct2, THEN conjunct2, THEN conjunct2, THEN conjunct2, THEN conjunct2, THEN conjunct2, THEN conjunct2, THEN conjunct2, THEN conjunct2, THEN conjunct1]
  have w1: "s2n_hash_new kat_lib True (low_level_sha1_state\<lparr>hash_impl := None\<rparr>) blank_heap
              = s2n_hash_new kat_lib True low_level_sha1_state blank_heap"
    by (rule new_any)
  have w2: "map_option (\<lambda>(rc, state1, hp1). (rc, hash_impl state1))
              (s2n_hash_new kat_lib True low_level_sha1_state blank_heap)
            = Some (S2N_SUCCESS, Some s2n_evp_hash)"
    unfolding new_fips
    by (simp add: low_level_sha1_state_simp s2n_evp_hash_new_def S2N_EVP_MD_CTX_NEW_def
        blank_heap_def set_evp_ctx_def set_evp_md5_secondary_ctx_def kat_lib_def table_lib_def
        blank_state_def)
  have w3: "map_option (\<lambda>(rc, state1, hp1). (rc, hash_impl state1))
              (s2n_hash_update kat_lib low_level_sha1_state blank_heap abc)
            = Some (S2N_SUCCESS, Some s2n_low_level_hash)"
    using update_stored
    by (simp add: low_level_sha1_state_simp no_handles_def s2n_low_level_hash_update_def
        low_level_update_end_def kat_lib_def table_lib_def blank_state_def)
  have w4: "map_option (\<lambda>(rc, state1). (rc, hash_impl state1))
              (s2n_hash_allow_md5_for_fips True (evp_state\<lparr>hash_impl := Some s2n_low_level_hash\<rparr>))
            = Some (S2N_SUCCESS, Some s2n_evp_hash)"
    unfolding allow_fips
    by (simp add: s2n_evp_hash_allow_md5_for_fips_def s2n_digest_allow_md5_for_fips_def)
  have w5: "map_option (\<lambda>(rc, state1). (rc, hash_impl state1))
              (s2n_hash_allow_md5_for_fips False evp_state)
            = Some (S2N_FAILURE S2N_ERR_NULL, Some s2n_low_level_hash)"
    unfolding allow_plain by simp
  have w6: "map_option (\<lambda>(rc, state1, hp1). (rc, hash_impl state1, alg state1, live hp1 0))
              (s2n_hash_init kat_lib True (evp_state\<lparr>hash_impl := Some s2n_low_level_hash\<rparr>)
                 evp_heap0 S2N_HASH_SHA1)
            = Some (S2N_SUCCESS, Some s2n_evp_hash, S2N_HASH_SHA1, Some (Some EVP_sha1, []))"
    unfolding init_fips
    by (simp add: c_int_of_def evp_state_simps EVP_DigestInit_ex_def on_ctx_def evp_init_end_def
        kat_lib_def table_lib_def blank_state_def)
  have w7: "map_option (\<lambda>(rc, state1, hp1). (rc, hash_impl state1, alg state1, live hp1 0))
              (s2n_hash_init kat_lib False evp_state evp_heap0 S2N_HASH_SHA1)
            = Some (S2N_SUCCESS, Some s2n_low_level_hash, S2N_HASH_SHA1, Some (None, []))"
    unfolding init_plain
    by (simp add: evp_state_simps no_handles_def low_level_init_end_def kat_lib_def table_lib_def
        blank_state_def)
  have w8: "map_option (\<lambda>(rc, state1, hp1). (rc, hash_impl state1, alg state1))
              (s2n_hash_init kat_lib True (evp_state\<lparr>hash_impl := Some s2n_low_level_hash\<rparr>)
                 evp_heap0 S2N_HASH_MD5)
            = Some (S2N_FAILURE S2N_ERR_HASH_INVALID_ALGORITHM, Some s2n_evp_hash, S2N_HASH_NONE)"
    unfolding init_fips
    by (simp add: c_int_of_def evp_state_simps s2n_digest_is_md5_allowed_for_fips_def
        blank_state_def)
  from w1 w2 w3 w4 w5 w6 w7 w8 show ?thesis by blast
qed

subsection \<open>The availability check of init\<close>

lemma s2n_hash_set_impl_same:
  "hash_impl state = Some (if fips then s2n_evp_hash else s2n_low_level_hash)
     \<Longrightarrow> s2n_hash_set_impl fips state = state"
  by (cases state) (simp add: s2n_hash_set_impl_def)

lemma s2n_hash_allow_md5_for_fips_True:
  "s2n_hash_allow_md5_for_fips True state
     = Some (S2N_SUCCESS,
             state\<lparr>hash_impl := Some s2n_evp_hash,
                   high_level := (high_level state)
                     \<lparr>evp := (evp (high_level state))\<lparr>md5_allowed_for_fips := True\<rparr>\<rparr>\<rparr>)"
  by (simp add: s2n_hash_allow_md5_for_fips_def s2n_hash_set_impl_def
      s2n_evp_hash_allow_md5_for_fips_def s2n_digest_allow_md5_for_fips_def)

lemma s2n_hash_allow_md5_for_fips_False:
  "s2n_hash_allow_md5_for_fips False state
     = Some (S2N_FAILURE S2N_ERR_NULL, state\<lparr>hash_impl := Some s2n_low_level_hash\<rparr>)"
  by (simp add: s2n_hash_allow_md5_for_fips_def s2n_hash_set_impl_def)

text \<open>
  C3. In FIPS mode, \<open>s2n_hash_init\<close> with MD5 fails with
  \<open>S2N_ERR_HASH_INVALID_ALGORITHM\<close> when the override is not set, and with
  MD5\_SHA1 it fails so whether the override is set or not. After
  \<open>s2n_hash_allow_md5_for_fips\<close> has set the override, init with MD5 passes the check
  and is the init of the EVP backend, which succeeds when \<open>EVP_DigestInit_ex\<close> on the
  primary handle reports success. In general (any mode, any tag) init fails with
  \<open>S2N_ERR_HASH_INVALID_ALGORITHM\<close> when the algorithm is unavailable, unless the
  override is set and the algorithm is MD5; otherwise it is the init of the backend the
  mode selects.
\<close>

theorem s2n_hash_init_availability_check:
  "(\<not> s2n_digest_is_md5_allowed_for_fips True (evp (high_level state))
      \<longrightarrow> s2n_hash_init lib True state hp S2N_HASH_MD5
            = Some (S2N_FAILURE S2N_ERR_HASH_INVALID_ALGORITHM, s2n_hash_set_impl True state, hp))
   \<and> s2n_hash_init lib True state hp S2N_HASH_MD5_SHA1
       = Some (S2N_FAILURE S2N_ERR_HASH_INVALID_ALGORITHM, s2n_hash_set_impl True state, hp)
   \<and> (\<forall>state1. s2n_hash_allow_md5_for_fips True state = Some (S2N_SUCCESS, state1)
        \<longrightarrow> s2n_digest_is_md5_allowed_for_fips True (evp (high_level state1))
          \<and> s2n_hash_init lib True state1 hp S2N_HASH_MD5
              = s2n_evp_hash_init lib state1 hp S2N_HASH_MD5
          \<and> (\<forall>p h. evp_ctx state1 = Some p \<and> live hp p = Some h
                     \<and> fst (DigestInit_ex lib h EVP_md5) \<noteq> 0
               \<longrightarrow> s2n_hash_init lib True state1 hp S2N_HASH_MD5
                     = Some (S2N_SUCCESS, state1\<lparr>alg := S2N_HASH_MD5\<rparr>,
                             hp\<lparr>live := (live hp)(p \<mapsto> snd (DigestInit_ex lib h EVP_md5))\<rparr>)))
   \<and> (c_int_of (s2n_hash_is_available fips a) = 0
        \<and> \<not> (a = S2N_HASH_MD5 \<and> s2n_digest_is_md5_allowed_for_fips fips (evp (high_level state)))
      \<longrightarrow> s2n_hash_init lib fips state hp a
            = Some (S2N_FAILURE S2N_ERR_HASH_INVALID_ALGORITHM, s2n_hash_set_impl fips state, hp))
   \<and> (c_int_of (s2n_hash_is_available fips a) \<noteq> 0
        \<or> (a = S2N_HASH_MD5 \<and> s2n_digest_is_md5_allowed_for_fips fips (evp (high_level state)))
      \<longrightarrow> s2n_hash_init lib fips state hp a
            = (if fips then s2n_evp_hash_init lib (s2n_hash_set_impl fips state) hp a
               else no_handles (s2n_low_level_hash_init lib (s2n_hash_set_impl fips state) a) hp))"
proof (intro conjI)
  show "\<not> s2n_digest_is_md5_allowed_for_fips True (evp (high_level state))
      \<longrightarrow> s2n_hash_init lib True state hp S2N_HASH_MD5
            = Some (S2N_FAILURE S2N_ERR_HASH_INVALID_ALGORITHM, s2n_hash_set_impl True state, hp)"
    by (simp add: s2n_hash_init_def c_int_of_def s2n_hash_set_impl_def)
  show "s2n_hash_init lib True state hp S2N_HASH_MD5_SHA1
       = Some (S2N_FAILURE S2N_ERR_HASH_INVALID_ALGORITHM, s2n_hash_set_impl True state, hp)"
    by (simp add: s2n_hash_init_def c_int_of_def)
  show "\<forall>state1. s2n_hash_allow_md5_for_fips True state = Some (S2N_SUCCESS, state1)
        \<longrightarrow> s2n_digest_is_md5_allowed_for_fips True (evp (high_level state1))
          \<and> s2n_hash_init lib True state1 hp S2N_HASH_MD5
              = s2n_evp_hash_init lib state1 hp S2N_HASH_MD5
          \<and> (\<forall>p h. evp_ctx state1 = Some p \<and> live hp p = Some h
                     \<and> fst (DigestInit_ex lib h EVP_md5) \<noteq> 0
               \<longrightarrow> s2n_hash_init lib True state1 hp S2N_HASH_MD5
                     = Some (S2N_SUCCESS, state1\<lparr>alg := S2N_HASH_MD5\<rparr>,
                             hp\<lparr>live := (live hp)(p \<mapsto> snd (DigestInit_ex lib h EVP_md5))\<rparr>))"
  proof (intro allI impI)
    fix state1
    assume "s2n_hash_allow_md5_for_fips True state = Some (S2N_SUCCESS, state1)"
    then have flag: "s2n_digest_is_md5_allowed_for_fips True (evp (high_level state1))"
      and impl: "hash_impl state1 = Some s2n_evp_hash"
      by (auto simp: s2n_hash_allow_md5_for_fips_True s2n_digest_is_md5_allowed_for_fips_def)
    have init: "s2n_hash_init lib True state1 hp S2N_HASH_MD5
                  = s2n_evp_hash_init lib state1 hp S2N_HASH_MD5"
      using flag impl by (simp add: s2n_hash_init_def s2n_hash_set_impl_same)
    have "s2n_evp_hash_init lib state1 hp S2N_HASH_MD5
            = Some (S2N_SUCCESS, state1\<lparr>alg := S2N_HASH_MD5\<rparr>,
                    hp\<lparr>live := (live hp)(p \<mapsto> snd (DigestInit_ex lib h EVP_md5))\<rparr>)"
      if "evp_ctx state1 = Some p \<and> live hp p = Some h \<and> fst (DigestInit_ex lib h EVP_md5) \<noteq> 0"
      for p h
      using that
      by (cases "DigestInit_ex lib h EVP_md5")
        (simp add: EVP_DigestInit_ex_def on_ctx_def evp_init_end_def)
    with flag init
    show "s2n_digest_is_md5_allowed_for_fips True (evp (high_level state1))
          \<and> s2n_hash_init lib True state1 hp S2N_HASH_MD5
              = s2n_evp_hash_init lib state1 hp S2N_HASH_MD5
          \<and> (\<forall>p h. evp_ctx state1 = Some p \<and> live hp p = Some h
                     \<and> fst (DigestInit_ex lib h EVP_md5) \<noteq> 0
               \<longrightarrow> s2n_hash_init lib True state1 hp S2N_HASH_MD5
                     = Some (S2N_SUCCESS, state1\<lparr>alg := S2N_HASH_MD5\<rparr>,
                             hp\<lparr>live := (live hp)(p \<mapsto> snd (DigestInit_ex lib h EVP_md5))\<rparr>))"
      by simp
  qed
  show "c_int_of (s2n_hash_is_available fips a) = 0
        \<and> \<not> (a = S2N_HASH_MD5 \<and> s2n_digest_is_md5_allowed_for_fips fips (evp (high_level state)))
      \<longrightarrow> s2n_hash_init lib fips state hp a
            = Some (S2N_FAILURE S2N_ERR_HASH_INVALID_ALGORITHM, s2n_hash_set_impl fips state, hp)"
    by (auto simp: s2n_hash_init_def s2n_hash_set_impl_def)
  show "c_int_of (s2n_hash_is_available fips a) \<noteq> 0
        \<or> (a = S2N_HASH_MD5 \<and> s2n_digest_is_md5_allowed_for_fips fips (evp (high_level state)))
      \<longrightarrow> s2n_hash_init lib fips state hp a
            = (if fips then s2n_evp_hash_init lib (s2n_hash_set_impl fips state) hp a
               else no_handles (s2n_low_level_hash_init lib (s2n_hash_set_impl fips state) a) hp)"
    by (auto simp: s2n_hash_init_def s2n_hash_set_impl_def)
qed

text \<open>
  In FIPS mode on a state with two fresh handles: init with MD5 and with MD5\_SHA1 fail;
  after the override is set, init with MD5 succeeds and stores the tag, and init with
  MD5\_SHA1 still fails.
\<close>

theorem s2n_hash_init_availability_check_witness:
  "map_option (\<lambda>(rc, state1, hp1). rc) (s2n_hash_init kat_lib True evp_state evp_heap0 S2N_HASH_MD5)
     = Some (S2N_FAILURE S2N_ERR_HASH_INVALID_ALGORITHM)
   \<and> map_option (\<lambda>(rc, state1, hp1). rc)
        (s2n_hash_init kat_lib True evp_state evp_heap0 S2N_HASH_MD5_SHA1)
     = Some (S2N_FAILURE S2N_ERR_HASH_INVALID_ALGORITHM)
   \<and> (case s2n_hash_allow_md5_for_fips True evp_state of
         None \<Rightarrow> False
       | Some (rc, state1) \<Rightarrow>
           rc = S2N_SUCCESS
           \<and> map_option (\<lambda>(rc, state2, hp2). (rc, alg state2))
                (s2n_hash_init kat_lib True state1 evp_heap0 S2N_HASH_MD5)
             = Some (S2N_SUCCESS, S2N_HASH_MD5)
           \<and> map_option (\<lambda>(rc, state2, hp2). rc)
                (s2n_hash_init kat_lib True state1 evp_heap0 S2N_HASH_MD5_SHA1)
             = Some (S2N_FAILURE S2N_ERR_HASH_INVALID_ALGORITHM))"
proof -
  let ?s1 = "evp_state\<lparr>hash_impl := Some s2n_evp_hash,
               high_level := (high_level evp_state)
                 \<lparr>evp := (evp (high_level evp_state))\<lparr>md5_allowed_for_fips := True\<rparr>\<rparr>\<rparr>"
  have allow: "s2n_hash_allow_md5_for_fips True evp_state = Some (S2N_SUCCESS, ?s1)"
    by (rule s2n_hash_allow_md5_for_fips_True)
  have noflag: "\<not> s2n_digest_is_md5_allowed_for_fips True (evp (high_level evp_state))"
    by (simp add: evp_state_simps s2n_digest_is_md5_allowed_for_fips_def blank_state_def)
  have handle: "evp_ctx ?s1 = Some 0 \<and> live evp_heap0 0 = Some (None, [])
                  \<and> fst (DigestInit_ex kat_lib (None, []) EVP_md5) \<noteq> 0"
    by (simp add: evp_state_simps kat_lib_def table_lib_def)
  note g1 = s2n_hash_init_availability_check [of evp_state kat_lib evp_heap0 True S2N_HASH_MD5]
  note g2 = s2n_hash_init_availability_check [of ?s1 kat_lib evp_heap0 True S2N_HASH_MD5]
  from g1 noflag have a: "s2n_hash_init kat_lib True evp_state evp_heap0 S2N_HASH_MD5
      = Some (S2N_FAILURE S2N_ERR_HASH_INVALID_ALGORITHM, s2n_hash_set_impl True evp_state, evp_heap0)"
    by blast
  from g1 have b: "s2n_hash_init kat_lib True evp_state evp_heap0 S2N_HASH_MD5_SHA1
      = Some (S2N_FAILURE S2N_ERR_HASH_INVALID_ALGORITHM, s2n_hash_set_impl True evp_state, evp_heap0)"
    by blast
  from g1 allow handle have c: "s2n_hash_init kat_lib True ?s1 evp_heap0 S2N_HASH_MD5
      = Some (S2N_SUCCESS, ?s1\<lparr>alg := S2N_HASH_MD5\<rparr>,
              evp_heap0\<lparr>live := (live evp_heap0)(0 \<mapsto> snd (DigestInit_ex kat_lib (None, []) EVP_md5))\<rparr>)"
    by blast
  from g2 have d: "s2n_hash_init kat_lib True ?s1 evp_heap0 S2N_HASH_MD5_SHA1
      = Some (S2N_FAILURE S2N_ERR_HASH_INVALID_ALGORITHM, s2n_hash_set_impl True ?s1, evp_heap0)"
    by blast
  show ?thesis
    by (simp add: allow a b c d)
qed

subsection \<open>Release of the handles\<close>

lemma S2N_EVP_MD_CTX_FREE_null [simp]: "S2N_EVP_MD_CTX_FREE None hp = Some hp"
  by (simp add: S2N_EVP_MD_CTX_FREE_def)

lemma S2N_EVP_MD_CTX_FREE_live:
  "live hp a = Some h \<Longrightarrow> S2N_EVP_MD_CTX_FREE (Some a) hp = Some (hp\<lparr>live := (live hp)(a := None)\<rparr>)"
  by (simp add: S2N_EVP_MD_CTX_FREE_def)

lemma S2N_EVP_MD_CTX_FREE_ok:
  assumes "handle_ok hp p"
  shows "\<exists>hp1. S2N_EVP_MD_CTX_FREE p hp = Some hp1 \<and> avail hp1 = avail hp
           \<and> (\<forall>c. live hp1 c = (if Some c = p then None else live hp c))"
  using assms by (cases p) (auto simp: handle_ok_def S2N_EVP_MD_CTX_FREE_def)

lemma freed_handles_null:
  "evp_ctx (set_evp_md5_secondary_ctx None (set_evp_ctx None state)) = None"
  "evp_md5_secondary_ctx (set_evp_md5_secondary_ctx None (set_evp_ctx None state)) = None"
  by (simp_all add: set_evp_ctx_def set_evp_md5_secondary_ctx_def)

lemma free_twice_state:
  "set_evp_md5_secondary_ctx None (set_evp_ctx None
     (set_evp_md5_secondary_ctx None (set_evp_ctx None state)))
   = set_evp_md5_secondary_ctx None (set_evp_ctx None state)"
  by (simp add: set_evp_ctx_def set_evp_md5_secondary_ctx_def)

text \<open>
  C9. On a state whose two handle fields are each null or live (so also after an
  acquisition that failed half-way), and are not one handle twice,
  \<open>s2n_evp_hash_free\<close> succeeds, destroys the contexts the fields point to (they are
  no longer live; every other context is untouched) and leaves both fields null. A
  second call on the result succeeds as well and changes nothing: the freed handles are
  not freed again.
\<close>

theorem s2n_evp_hash_free_releases:
  assumes "handle_ok hp (evp_ctx state)"
    and "handle_ok hp (evp_md5_secondary_ctx state)"
    and "evp_ctx state = None \<or> evp_ctx state \<noteq> evp_md5_secondary_ctx state"
  shows "\<exists>state1 hp1.
           s2n_evp_hash_free state hp = Some (S2N_SUCCESS, state1, hp1)
           \<and> evp_ctx state1 = None \<and> evp_md5_secondary_ctx state1 = None
           \<and> (\<forall>c. live hp1 c
                  = (if Some c = evp_ctx state \<or> Some c = evp_md5_secondary_ctx state then None
                     else live hp c))
           \<and> avail hp1 = avail hp
           \<and> s2n_evp_hash_free state1 hp1 = Some (S2N_SUCCESS, state1, hp1)"
proof -
  from S2N_EVP_MD_CTX_FREE_ok [OF assms(1)]
  obtain hp1 where f1: "S2N_EVP_MD_CTX_FREE (evp_ctx state) hp = Some hp1"
    and a1: "avail hp1 = avail hp"
    and l1: "\<And>c. live hp1 c = (if Some c = evp_ctx state then None else live hp c)"
    by blast
  have "handle_ok hp1 (evp_md5_secondary_ctx state)"
    using assms(2,3) l1 by (auto simp: handle_ok_def split: option.splits)
  from S2N_EVP_MD_CTX_FREE_ok [OF this]
  obtain hp2 where f2: "S2N_EVP_MD_CTX_FREE (evp_md5_secondary_ctx state) hp1 = Some hp2"
    and a2: "avail hp2 = avail hp1"
    and l2: "\<And>c. live hp2 c = (if Some c = evp_md5_secondary_ctx state then None else live hp1 c)"
    by blast
  let ?s = "set_evp_md5_secondary_ctx None (set_evp_ctx None state)"
  have r: "s2n_evp_hash_free state hp = Some (S2N_SUCCESS, ?s, hp2)"
    by (simp add: s2n_evp_hash_free_def f1 f2)
  have again: "s2n_evp_hash_free ?s hp2 = Some (S2N_SUCCESS, ?s, hp2)"
    by (simp add: s2n_evp_hash_free_def freed_handles_null free_twice_state)
  show ?thesis
    using r again a1 a2 l1 l2 by (auto simp: freed_handles_null)
qed

text \<open>
  \<open>s2n_evp_hash_new\<close> on a heap with one free slot acquires the primary handle and
  fails on the secondary; release of that state succeeds, and so does a second release.
\<close>

theorem s2n_evp_hash_free_releases_witness:
  "(case s2n_evp_hash_new kat_lib blank_state one_slot_heap of
      (rc, state, hp) \<Rightarrow>
        rc = S2N_FAILURE S2N_ERR_NULL
        \<and> evp_ctx state = Some 0 \<and> evp_md5_secondary_ctx state = None \<and> live hp 0 \<noteq> None
        \<and> (\<exists>state1 hp1.
              s2n_evp_hash_free state hp = Some (S2N_SUCCESS, state1, hp1)
              \<and> evp_ctx state1 = None \<and> evp_md5_secondary_ctx state1 = None
              \<and> live hp1 0 = None
              \<and> s2n_evp_hash_free state1 hp1 = Some (S2N_SUCCESS, state1, hp1)))"
proof -
  obtain rc state hp where new: "s2n_evp_hash_new kat_lib blank_state one_slot_heap = (rc, state, hp)"
    by (cases "s2n_evp_hash_new kat_lib blank_state one_slot_heap") auto
  from new have facts: "rc = S2N_FAILURE S2N_ERR_NULL" "evp_ctx state = Some 0"
    "evp_md5_secondary_ctx state = None" "live hp 0 \<noteq> None"
    by (auto simp: s2n_evp_hash_new_def S2N_EVP_MD_CTX_NEW_def one_slot_heap_def
        set_evp_ctx_def set_evp_md5_secondary_ctx_def blank_state_def)
  have "handle_ok hp (evp_ctx state)" "handle_ok hp (evp_md5_secondary_ctx state)"
    "evp_ctx state = None \<or> evp_ctx state \<noteq> evp_md5_secondary_ctx state"
    using facts by (simp_all add: handle_ok_def)
  from s2n_evp_hash_free_releases [OF this]
  show ?thesis using facts by (auto simp: new)
qed

subsection \<open>Copy in the EVP backend\<close>





lemma evp_src_md5_sha1:
  "fst (evp_src S2N_HASH_MD5_SHA1)
     = blank_state\<lparr>hash_impl := Some s2n_evp_hash, alg := S2N_HASH_MD5_SHA1,
         high_level := \<lparr> evp = \<lparr> ctx = Some 0, md5_allowed_for_fips = True \<rparr>,
                         evp_md5_secondary = \<lparr> ctx = Some 1, md5_allowed_for_fips = False \<rparr> \<rparr>\<rparr>"
  "live (snd (evp_src S2N_HASH_MD5_SHA1)) 0 = Some (Some EVP_sha1, abc)"
  "live (snd (evp_src S2N_HASH_MD5_SHA1)) (Suc 0) = Some (Some EVP_md5, abc)"
  "avail (snd (evp_src S2N_HASH_MD5_SHA1)) = [2, 3]"
  by (simp_all add: evp_src_def s2n_hash_allow_md5_for_fips_True evp_state_simps
      EVP_DigestInit_ex_def EVP_DigestUpdate_def on_ctx_def evp_init_end_def evp_update_end_def
      s2n_evp_hash_update_def evp_update_primary_def kat_lib_def table_lib_def blank_state_def)









subsection \<open>The layout of the composite digest\<close>

lemma write_at_composite:
  assumes "length dm = MD5_DIGEST_LENGTH" and "length ds = SHA_DIGEST_LENGTH"
    and "MD5_DIGEST_LENGTH + SHA_DIGEST_LENGTH \<le> length out"
  shows "write_at (write_at out MD5_DIGEST_LENGTH ds) 0 dm
           = dm @ ds @ drop (MD5_DIGEST_LENGTH + SHA_DIGEST_LENGTH) out"
  using assms by (simp add: write_at_def)

lemma low_level_src_md5_sha1:
  "alg (low_level_src S2N_HASH_MD5_SHA1) = S2N_HASH_MD5_SHA1"
  "md5_sha1_md5 (low_level (low_level_src S2N_HASH_MD5_SHA1)) = abc"
  "md5_sha1_sha1 (low_level (low_level_src S2N_HASH_MD5_SHA1)) = abc"
  by (simp_all add: low_level_src_def s2n_low_level_hash_new_def low_level_init_end_def
      s2n_low_level_hash_update_def low_level_update_end_def kat_lib_def table_lib_def
      blank_state_def)

text \<open>
  C1. For MD5\_SHA1, digest writes the MD5 finalisation at bytes 0 to 15 of \<open>out\<close> and
  the SHA1 finalisation at bytes 16 to 35, in both backends: when the SHA1 and MD5
  sub-contexts of a low-level state and the primary and secondary handles of an EVP
  state finalise to the same digests \<open>ds\<close> (20 bytes) and \<open>dm\<close> (16 bytes), both
  digest calls with size 36 succeed and leave the same buffer, \<open>dm\<close> followed by
  \<open>ds\<close> (and the bytes of \<open>out\<close> beyond the 36th, if any, as they were). The
  digests themselves are OpenSSL's: with a library that finalises \<open>abc\<close> to the
  published MD5 and SHA1 digests, the output is 900150983cd24fb0d6963f7d28e17f72
  followed by a9993e364706816aba3e25717850c26c9cd0d89d.
\<close>

theorem composite_digest_layout:
  assumes "alg state = S2N_HASH_MD5_SHA1"
    and "SHA1_Final lib (md5_sha1_sha1 (low_level state)) = (r1, ds, c1)"
    and "MD5_Final lib (md5_sha1_md5 (low_level state)) = (r2, dm, c2)"
    and "r1 AND r2 \<noteq> 0"
    and "alg estate = S2N_HASH_MD5_SHA1"
    and "evp_ctx estate = Some p" and "evp_md5_secondary_ctx estate = Some q" and "p \<noteq> q"
    and "live hp p = Some hs" and "live hp q = Some hm"
    and "DigestFinal_ex lib hs = (r3, ds, hs1)"
    and "DigestFinal_ex lib hm = (r4, dm, hm1)"
    and "r3 AND r4 \<noteq> 0"
    and "length dm = 16" and "length ds = 20" and "36 \<le> length out"
  shows "(\<exists>state1. s2n_low_level_hash_digest lib state out 36
                     = (S2N_SUCCESS, state1, dm @ ds @ drop 36 out))
         \<and> (\<exists>estate1 hp1. s2n_evp_hash_digest lib estate hp out 36
                     = Some (S2N_SUCCESS, estate1, hp1, dm @ ds @ drop 36 out))
         \<and> take 16 (dm @ ds @ drop 36 out) = dm
         \<and> take 20 (drop 16 (dm @ ds @ drop 36 out)) = ds"
proof -
  have w: "write_at (write_at out MD5_DIGEST_LENGTH ds) 0 dm = dm @ ds @ drop 36 out"
    using write_at_composite [of dm ds out] assms(14-16)
    by (simp add: MD5_DIGEST_LENGTH_def SHA_DIGEST_LENGTH_def)
  have ll: "\<exists>state1. s2n_low_level_hash_digest lib state out 36
                     = (S2N_SUCCESS, state1, dm @ ds @ drop 36 out)"
    using assms(1-4) w
    by (simp add: s2n_low_level_hash_digest_def low_level_digest_end_def
        MD5_DIGEST_LENGTH_def SHA_DIGEST_LENGTH_def)
  have f1: "EVP_DigestFinal_ex lib (Some p) hp
              = Some ((r3, ds), hp\<lparr>live := (live hp)(p \<mapsto> hs1)\<rparr>)"
    using assms(9,11) by (simp add: EVP_DigestFinal_ex_def on_ctx_def)
  have f2: "EVP_DigestFinal_ex lib (Some q) (hp\<lparr>live := (live hp)(p \<mapsto> hs1)\<rparr>)
              = Some ((r4, dm), hp\<lparr>live := (live hp)(p \<mapsto> hs1, q \<mapsto> hm1)\<rparr>)"
    using assms(8,10,12) by (simp add: EVP_DigestFinal_ex_def on_ctx_def)
  have evp: "\<exists>estate1 hp1. s2n_evp_hash_digest lib estate hp out 36
                     = Some (S2N_SUCCESS, estate1, hp1, dm @ ds @ drop 36 out)"
    using assms(5-7,13) f1 f2 w
    by (simp add: s2n_evp_hash_digest_def evp_digest_end_def
        MD5_DIGEST_LENGTH_def SHA_DIGEST_LENGTH_def)
  from ll evp assms(14,15) show ?thesis by simp
qed

text \<open>
  Both backends, initialised with MD5\_SHA1 and fed \<open>abc\<close>, with the library that
  answers with the two published digests.
\<close>

theorem composite_digest_layout_witness:
  "(case s2n_low_level_hash_digest kat_lib (low_level_src S2N_HASH_MD5_SHA1) (replicate 36 0) 36 of
      (rc, state1, out1) \<Rightarrow> (rc, out1))
     = (S2N_SUCCESS, md5_abc @ sha1_abc)
   \<and> map_option (\<lambda>(rc, state1, hp1, out1). (rc, out1))
        (s2n_evp_hash_digest kat_lib (fst (evp_src S2N_HASH_MD5_SHA1))
           (snd (evp_src S2N_HASH_MD5_SHA1)) (replicate 36 0) 36)
     = Some (S2N_SUCCESS, md5_abc @ sha1_abc)
   \<and> md5_abc @ sha1_abc
     = [0x90, 0x01, 0x50, 0x98, 0x3c, 0xd2, 0x4f, 0xb0, 0xd6, 0x96, 0x3f, 0x7d,
        0x28, 0xe1, 0x7f, 0x72,
        0xa9, 0x99, 0x3e, 0x36, 0x47, 0x06, 0x81, 0x6a, 0xba, 0x3e, 0x25, 0x71,
        0x78, 0x50, 0xc2, 0x6c, 0x9c, 0xd0, 0xd8, 0x9d]"
proof -
  have lib: "SHA1_Final kat_lib abc = (1, sha1_abc, [])" "MD5_Final kat_lib abc = (1, md5_abc, [])"
    "DigestFinal_ex kat_lib (Some EVP_sha1, abc) = (1, sha1_abc, (Some EVP_sha1, []))"
    "DigestFinal_ex kat_lib (Some EVP_md5, abc) = (1, md5_abc, (Some EVP_md5, []))"
    by (simp_all add: kat_lib_def table_lib_def known_answers_def)
  have len: "length md5_abc = 16" "length sha1_abc = 20" "36 \<le> length (replicate 36 (0::byte))"
    by (simp_all add: md5_abc_def sha1_abc_def)
  have one: "(1::int) AND 1 \<noteq> 0" by simp
  note w = composite_digest_layout
    [where lib = kat_lib and state = "low_level_src S2N_HASH_MD5_SHA1"
       and estate = "fst (evp_src S2N_HASH_MD5_SHA1)" and hp = "snd (evp_src S2N_HASH_MD5_SHA1)"
       and p = 0 and q = "Suc 0" and out = "replicate 36 0",
     OF low_level_src_md5_sha1(1) _ _ one _ _ _ _ evp_src_md5_sha1(2) evp_src_md5_sha1(3)
       lib(3) lib(4) one len]
  have "(\<exists>state1. s2n_low_level_hash_digest kat_lib (low_level_src S2N_HASH_MD5_SHA1)
                      (replicate 36 0) 36
                     = (S2N_SUCCESS, state1, md5_abc @ sha1_abc @ drop 36 (replicate 36 0)))
         \<and> (\<exists>estate1 hp1. s2n_evp_hash_digest kat_lib (fst (evp_src S2N_HASH_MD5_SHA1))
                      (snd (evp_src S2N_HASH_MD5_SHA1)) (replicate 36 0) 36
                     = Some (S2N_SUCCESS, estate1, hp1,
                             md5_abc @ sha1_abc @ drop 36 (replicate 36 0)))"
    using w lib(1,2)
    by (simp add: low_level_src_md5_sha1 evp_src_md5_sha1 blank_state_def)
  then show ?thesis
    by (auto simp: md5_abc_def sha1_abc_def)
qed

subsection \<open>Reset and a fresh init\<close>

text \<open>
  Two states look the same to a run of the low-level backend when they have the same tag
  and the same contexts in the members the tag selects; update keeps that and returns the
  same code, digest returns the same code and bytes.
\<close>


lemma low_level_sameI:
  "alg s = a \<Longrightarrow> alg s' = a \<Longrightarrow> low_level_ctxs a (low_level s) = low_level_ctxs a (low_level s')
     \<Longrightarrow> low_level_same s s'"
  by (simp add: low_level_same_def)

lemma low_level_update_same_aux:
  assumes "alg s = a" and "alg s' = a"
    and "low_level_ctxs a (low_level s) = low_level_ctxs a (low_level s')"
  shows "fst (s2n_low_level_hash_update lib s d) = fst (s2n_low_level_hash_update lib s' d)
         \<and> alg (snd (s2n_low_level_hash_update lib s d)) = a
         \<and> alg (snd (s2n_low_level_hash_update lib s' d)) = a
         \<and> low_level_ctxs a (low_level (snd (s2n_low_level_hash_update lib s d)))
             = low_level_ctxs a (low_level (snd (s2n_low_level_hash_update lib s' d)))"
  using assms
  by (cases a)
    (simp_all add: s2n_low_level_hash_update_def low_level_update_end_def Let_def case_prod_beta)

lemma low_level_same_dest:
  assumes "low_level_same s s'"
  shows "alg s' = alg s"
    and "low_level_ctxs (alg s) (low_level s) = low_level_ctxs (alg s) (low_level s')"
  using assms unfolding low_level_same_def by auto

lemma low_level_update_same:
  assumes "low_level_same s s'"
  shows "fst (s2n_low_level_hash_update lib s d) = fst (s2n_low_level_hash_update lib s' d)
         \<and> low_level_same (snd (s2n_low_level_hash_update lib s d))
              (snd (s2n_low_level_hash_update lib s' d))"
proof -
  note aux = low_level_update_same_aux [OF refl low_level_same_dest [OF assms], of lib d]
  from aux have "fst (s2n_low_level_hash_update lib s d) = fst (s2n_low_level_hash_update lib s' d)"
    by (rule conjunct1)
  moreover from aux have "low_level_same (snd (s2n_low_level_hash_update lib s d))
              (snd (s2n_low_level_hash_update lib s' d))"
    by (intro low_level_sameI [where a = "alg s"]) simp_all
  ultimately show ?thesis by (rule conjI)
qed

lemma low_level_digest_same_aux:
  assumes "alg s = a" and "alg s' = a"
    and "low_level_ctxs a (low_level s) = low_level_ctxs a (low_level s')"
  shows "(case s2n_low_level_hash_digest lib s out sz of (rc, s1, out1) \<Rightarrow> (rc, out1))
         = (case s2n_low_level_hash_digest lib s' out sz of (rc, s1, out1) \<Rightarrow> (rc, out1))"
  using assms
  by (cases a)
    (simp_all add: s2n_low_level_hash_digest_def low_level_digest_end_def Let_def case_prod_beta)

lemma low_level_updates_same:
  assumes "low_level_same s s'"
  shows "fst (low_level_updates lib s ds) = fst (low_level_updates lib s' ds)
         \<and> (fst (low_level_updates lib s ds) = S2N_SUCCESS \<longrightarrow>
              low_level_same (snd (low_level_updates lib s ds)) (snd (low_level_updates lib s' ds)))"
  using assms
proof (induction ds arbitrary: s s')
  case Nil
  then show ?case by simp
next
  case (Cons d ds)
  obtain rc t where u: "s2n_low_level_hash_update lib s d = (rc, t)"
    by (cases "s2n_low_level_hash_update lib s d") auto
  obtain rc' t' where u': "s2n_low_level_hash_update lib s' d = (rc', t')"
    by (cases "s2n_low_level_hash_update lib s' d") auto
  from low_level_update_same [OF Cons.prems, of lib d] u u'
  have same: "rc' = rc" "low_level_same t t'"
    by simp_all
  show ?case
  proof (cases rc)
    case S2N_SUCCESS
    from Cons.IH [OF same(2)] show ?thesis
      using u u' same(1) S2N_SUCCESS by simp
  next
    case (S2N_FAILURE e)
    then show ?thesis using u u' same(1) by simp
  qed
qed

lemma low_level_run_same:
  assumes "low_level_same s s'"
  shows "low_level_run lib s ds out sz = low_level_run lib s' ds out sz"
proof -
  obtain rc t where u: "low_level_updates lib s ds = (rc, t)"
    by (cases "low_level_updates lib s ds") auto
  obtain rc' t' where u': "low_level_updates lib s' ds = (rc', t')"
    by (cases "low_level_updates lib s' ds") auto
  from low_level_updates_same [OF assms, of lib ds] u u'
  have same: "rc' = rc" "rc = S2N_SUCCESS \<longrightarrow> low_level_same t t'"
    by simp_all
  show ?thesis
  proof (cases rc)
    case S2N_SUCCESS
    with same have tt: "low_level_same t t'" by simp
    have "(case s2n_low_level_hash_digest lib t out sz of (rc, s1, out1) \<Rightarrow> (rc, out1))
         = (case s2n_low_level_hash_digest lib t' out sz of (rc, s1, out1) \<Rightarrow> (rc, out1))"
      by (rule low_level_digest_same_aux [OF refl low_level_same_dest [OF tt]])
    then show ?thesis
      using u u' same(1) S2N_SUCCESS by (simp add: low_level_run_def case_prod_beta)
  next
    case (S2N_FAILURE e)
    then show ?thesis using u u' same(1) by (simp add: low_level_run_def)
  qed
qed

lemma low_level_init_fresh:
  "fst (s2n_low_level_hash_init lib s a) = fst (s2n_low_level_hash_init lib s' a)
   \<and> (fst (s2n_low_level_hash_init lib s a) = S2N_SUCCESS \<longrightarrow>
        low_level_same (snd (s2n_low_level_hash_init lib s a))
          (snd (s2n_low_level_hash_init lib s' a)))"
  by (cases a) (simp_all add: low_level_init_end_def low_level_same_def Let_def case_prod_beta)

lemma low_level_reset_equals_fresh_init:
  "fst (s2n_low_level_hash_reset lib state)
     = fst (s2n_low_level_hash_init lib (snd (s2n_low_level_hash_new state0)) (alg state))
   \<and> (fst (s2n_low_level_hash_reset lib state) = S2N_SUCCESS \<longrightarrow>
        low_level_run lib (snd (s2n_low_level_hash_reset lib state)) ds out sz
        = low_level_run lib
            (snd (s2n_low_level_hash_init lib (snd (s2n_low_level_hash_new state0)) (alg state)))
            ds out sz)"
  using low_level_init_fresh [of lib state "alg state" state0]
    low_level_run_same
      [of "snd (s2n_low_level_hash_init lib state (alg state))"
          "snd (s2n_low_level_hash_init lib state0 (alg state))" lib ds out sz]
  by (simp add: s2n_low_level_hash_reset_def s2n_low_level_hash_new_def)

text \<open>
  The same for the EVP backend, on the contents behind the handles. A library routine
  called through two handles with the same content returns the same code and leaves the
  same content, and changes no other handle.
\<close>

lemma on_ctx_None: "content hp p = None \<Longrightarrow> on_ctx p hp f = None"
  by (simp add: on_ctx_def content_def split: option.splits)

lemma on_ctx_Some:
  "content hp p = Some h \<Longrightarrow>
     \<exists>a. p = Some a \<and> on_ctx p hp f = Some (fst (f h), hp\<lparr>live := (live hp)(a \<mapsto> snd (f h))\<rparr>)"
  by (cases p) (simp_all add: on_ctx_def content_def case_prod_beta)

lemma content_upd:
  "content (hp\<lparr>live := (live hp)(a \<mapsto> x)\<rparr>) q = (if q = Some a then Some x else content hp q)"
  by (cases q) (simp_all add: content_def)


lemma on_ctx_same:
  assumes "content hp p = content hp' p'"
  shows "(on_ctx p hp f = None \<and> on_ctx p' hp' f = None)
         \<or> (\<exists>r h1 h1'. on_ctx p hp f = Some (r, h1) \<and> on_ctx p' hp' f = Some (r, h1')
              \<and> content h1 p = content h1' p' \<and> content h1 p \<noteq> None
              \<and> (\<forall>q. q \<noteq> p \<longrightarrow> content h1 q = content hp q)
              \<and> (\<forall>q. q \<noteq> p' \<longrightarrow> content h1' q = content hp' q))"
proof (cases "content hp p")
  case None
  with assms have "content hp' p' = None" by simp
  with None show ?thesis by (simp add: on_ctx_None)
next
  case (Some h)
  with assms have s': "content hp' p' = Some h" by simp
  from on_ctx_Some [OF Some, of f] obtain a where
    a: "p = Some a" "on_ctx p hp f = Some (fst (f h), hp\<lparr>live := (live hp)(a \<mapsto> snd (f h))\<rparr>)"
    by blast
  from on_ctx_Some [OF s', of f] obtain a' where
    a': "p' = Some a'" "on_ctx p' hp' f = Some (fst (f h), hp'\<lparr>live := (live hp')(a' \<mapsto> snd (f h))\<rparr>)"
    by blast
  show ?thesis
    using a a' by (simp add: content_upd)
qed

lemma evp_ctxs_plain:
  assumes "a \<noteq> S2N_HASH_NONE" and "a \<noteq> S2N_HASH_MD5_SHA1" and "\<forall>n. a \<noteq> S2N_HASH_OTHER n"
  shows "evp_ctxs a d hp = [content hp (ctx (evp d))]"
  using assms by (cases a) simp_all

lemma evp_update_plain:
  assumes "alg s \<noteq> S2N_HASH_NONE" and "alg s \<noteq> S2N_HASH_MD5_SHA1"
    and "\<forall>n. alg s \<noteq> S2N_HASH_OTHER n"
  shows "s2n_evp_hash_update lib s hp d = evp_update_primary lib s hp d"
  using assms by (cases "alg s") (simp_all add: s2n_evp_hash_update_def)

lemma evp_digest_plain:
  assumes "alg s \<noteq> S2N_HASH_NONE" and "alg s \<noteq> S2N_HASH_MD5_SHA1"
    and "\<forall>n. alg s \<noteq> S2N_HASH_OTHER n"
  shows "s2n_evp_hash_digest lib s hp out sz =
           (case s2n_hash_digest_size (alg s) of
              Inl e \<Rightarrow> Some (S2N_FAILURE e, s, hp, out)
            | Inr n \<Rightarrow> if unat sz \<noteq> unat n then Some (S2N_FAILURE S2N_ERR_SIZE_MISMATCH, s, hp, out)
                       else evp_digest_primary lib s hp out)"
  using assms by (cases "alg s") (simp_all add: s2n_evp_hash_digest_def)

lemma evp_init_plain:
  assumes "a \<noteq> S2N_HASH_NONE" and "a \<noteq> S2N_HASH_MD5_SHA1" and "\<forall>n. a \<noteq> S2N_HASH_OTHER n"
  shows "\<exists>md. s2n_evp_hash_init lib s hp a
           = map_option (evp_init_end s a) (EVP_DigestInit_ex lib (evp_ctx s) md hp)"
  using assms by (cases a) auto

lemma evp_same_dest:
  assumes "evp_same s hp s' hp'"
  shows "alg s' = alg s"
    and "evp_ctxs (alg s) (high_level s) hp = evp_ctxs (alg s) (high_level s') hp'"
    and "alg s = S2N_HASH_MD5_SHA1 \<Longrightarrow> evp_md5_secondary_ctx s \<noteq> evp_ctx s"
    and "alg s = S2N_HASH_MD5_SHA1 \<Longrightarrow> evp_md5_secondary_ctx s' \<noteq> evp_ctx s'"
  using assms unfolding evp_same_def by auto

lemma evp_same_update:
  assumes "evp_same s hp s' hp'"
  shows "(s2n_evp_hash_update lib s hp d = None \<and> s2n_evp_hash_update lib s' hp' d = None)
         \<or> (\<exists>rc t h t' h'. s2n_evp_hash_update lib s hp d = Some (rc, t, h)
               \<and> s2n_evp_hash_update lib s' hp' d = Some (rc, t', h')
               \<and> evp_same t h t' h')"
proof -
  note tag = evp_same_dest(1) [OF assms]
  consider (none) "alg s = S2N_HASH_NONE" | (other) n where "alg s = S2N_HASH_OTHER n"
    | (composite) "alg s = S2N_HASH_MD5_SHA1"
    | (plain) "alg s \<noteq> S2N_HASH_NONE" "alg s \<noteq> S2N_HASH_MD5_SHA1" "\<forall>n. alg s \<noteq> S2N_HASH_OTHER n"
    by blast
  then show ?thesis
  proof cases
    case none
    then show ?thesis using tag
      by (simp add: s2n_evp_hash_update_def evp_update_end_def evp_same_def)
  next
    case other
    then show ?thesis using tag
      by (simp add: s2n_evp_hash_update_def evp_same_def)
  next
    case plain
    have plain': "alg s' \<noteq> S2N_HASH_NONE" "alg s' \<noteq> S2N_HASH_MD5_SHA1"
      "\<forall>n. alg s' \<noteq> S2N_HASH_OTHER n"
      using plain tag by simp_all
    have c: "content hp (evp_ctx s) = content hp' (evp_ctx s')"
      using evp_same_dest(2) [OF assms] unfolding evp_ctxs_plain [OF plain] by simp
    from on_ctx_same [OF c, of "\<lambda>h. DigestUpdate lib h d"]
    show ?thesis
    proof (elim disjE conjE exE)
      assume "on_ctx (evp_ctx s) hp (\<lambda>h. DigestUpdate lib h d) = None"
        "on_ctx (evp_ctx s') hp' (\<lambda>h. DigestUpdate lib h d) = None"
      then show ?thesis
        by (simp add: evp_update_plain [OF plain] evp_update_plain [OF plain']
            evp_update_primary_def EVP_DigestUpdate_def)
    next
      fix r h1 h1'
      assume o: "on_ctx (evp_ctx s) hp (\<lambda>h. DigestUpdate lib h d) = Some (r, h1)"
        "on_ctx (evp_ctx s') hp' (\<lambda>h. DigestUpdate lib h d) = Some (r, h1')"
        and c1: "content h1 (evp_ctx s) = content h1' (evp_ctx s')"
      have "evp_same s h1 s' h1'"
        using c1 tag plain by (simp add: evp_same_def evp_ctxs_plain [OF plain])
      then show ?thesis
        using o
        by (simp add: evp_update_plain [OF plain] evp_update_plain [OF plain']
            evp_update_primary_def EVP_DigestUpdate_def evp_update_end_def)
    qed
  next
    case composite
    have c: "content hp (evp_ctx s) = content hp' (evp_ctx s')"
      and c2: "content hp (evp_md5_secondary_ctx s) = content hp' (evp_md5_secondary_ctx s')"
      using evp_same_dest(2) [OF assms] unfolding composite by simp_all
    note ne = evp_same_dest(3) [OF assms composite] evp_same_dest(4) [OF assms composite]
    have tag': "alg s' = S2N_HASH_MD5_SHA1" using tag composite by simp
    from on_ctx_same [OF c, of "\<lambda>h. DigestUpdate lib h d"]
    show ?thesis
    proof (elim disjE conjE exE)
      assume "on_ctx (evp_ctx s) hp (\<lambda>h. DigestUpdate lib h d) = None"
        "on_ctx (evp_ctx s') hp' (\<lambda>h. DigestUpdate lib h d) = None"
      then show ?thesis
        by (simp add: s2n_evp_hash_update_def composite tag' EVP_DigestUpdate_def)
    next
      fix r h1 h1'
      assume o: "on_ctx (evp_ctx s) hp (\<lambda>h. DigestUpdate lib h d) = Some (r, h1)"
        "on_ctx (evp_ctx s') hp' (\<lambda>h. DigestUpdate lib h d) = Some (r, h1')"
        and c1: "content h1 (evp_ctx s) = content h1' (evp_ctx s')"
        and k: "\<forall>q. q \<noteq> evp_ctx s \<longrightarrow> content h1 q = content hp q"
        and k': "\<forall>q. q \<noteq> evp_ctx s' \<longrightarrow> content h1' q = content hp' q"
      have c2': "content h1 (evp_md5_secondary_ctx s) = content h1' (evp_md5_secondary_ctx s')"
        using k k' ne c2 by simp
      from on_ctx_same [OF c2', of "\<lambda>h. DigestUpdate lib h d"]
      show ?thesis
      proof (elim disjE conjE exE)
        assume "on_ctx (evp_md5_secondary_ctx s) h1 (\<lambda>h. DigestUpdate lib h d) = None"
          "on_ctx (evp_md5_secondary_ctx s') h1' (\<lambda>h. DigestUpdate lib h d) = None"
        then show ?thesis using o
          by (simp add: s2n_evp_hash_update_def composite tag' EVP_DigestUpdate_def)
      next
        fix r2 h2 h2'
        assume o2: "on_ctx (evp_md5_secondary_ctx s) h1 (\<lambda>h. DigestUpdate lib h d) = Some (r2, h2)"
          "on_ctx (evp_md5_secondary_ctx s') h1' (\<lambda>h. DigestUpdate lib h d) = Some (r2, h2')"
          and d2: "content h2 (evp_md5_secondary_ctx s) = content h2' (evp_md5_secondary_ctx s')"
          and m: "\<forall>q. q \<noteq> evp_md5_secondary_ctx s \<longrightarrow> content h2 q = content h1 q"
          and m': "\<forall>q. q \<noteq> evp_md5_secondary_ctx s' \<longrightarrow> content h2' q = content h1' q"
        have "content h2 (evp_ctx s) = content h2' (evp_ctx s')"
          using m m' ne c1 by (metis)
        then have "evp_same s h2 s' h2'"
          using d2 tag composite ne by (auto simp: evp_same_def)
        then show ?thesis
          using o o2
          by (simp add: s2n_evp_hash_update_def composite tag' EVP_DigestUpdate_def
              evp_update_end_def)
      qed
    qed
  qed
qed

lemma evp_same_digest:
  assumes "evp_same s hp s' hp'"
  shows "map_option (\<lambda>(rc, t, h, out1). (rc, out1)) (s2n_evp_hash_digest lib s hp out sz)
         = map_option (\<lambda>(rc, t, h, out1). (rc, out1)) (s2n_evp_hash_digest lib s' hp' out sz)"
proof -
  note tag = evp_same_dest(1) [OF assms]
  let ?fin = "\<lambda>h. let (r, d, h') = DigestFinal_ex lib h in ((r, d), h')"
  consider (none) "alg s = S2N_HASH_NONE" | (other) n where "alg s = S2N_HASH_OTHER n"
    | (composite) "alg s = S2N_HASH_MD5_SHA1"
    | (plain) "alg s \<noteq> S2N_HASH_NONE" "alg s \<noteq> S2N_HASH_MD5_SHA1" "\<forall>n. alg s \<noteq> S2N_HASH_OTHER n"
    by blast
  then show ?thesis
  proof cases
    case none
    then show ?thesis using tag
      by (simp add: s2n_evp_hash_digest_def evp_digest_end_def)
  next
    case other
    then show ?thesis using tag
      by (simp add: s2n_evp_hash_digest_def)
  next
    case plain
    have plain': "alg s' \<noteq> S2N_HASH_NONE" "alg s' \<noteq> S2N_HASH_MD5_SHA1"
      "\<forall>n. alg s' \<noteq> S2N_HASH_OTHER n"
      using plain tag by simp_all
    have c: "content hp (evp_ctx s) = content hp' (evp_ctx s')"
      using evp_same_dest(2) [OF assms] unfolding evp_ctxs_plain [OF plain] by simp
    have prim: "map_option (\<lambda>(rc, t, h, out1). (rc, out1)) (evp_digest_primary lib s hp out)
         = map_option (\<lambda>(rc, t, h, out1). (rc, out1)) (evp_digest_primary lib s' hp' out)"
      using on_ctx_same [OF c, of ?fin]
      by (auto simp: evp_digest_primary_def EVP_DigestFinal_ex_def evp_digest_end_def)
    show ?thesis
      unfolding evp_digest_plain [OF plain] evp_digest_plain [OF plain'] tag
      using prim by (simp split: sum.splits)
  next
    case composite
    have c: "content hp (evp_ctx s) = content hp' (evp_ctx s')"
      and c2: "content hp (evp_md5_secondary_ctx s) = content hp' (evp_md5_secondary_ctx s')"
      using evp_same_dest(2) [OF assms] unfolding composite by simp_all
    note ne = evp_same_dest(3) [OF assms composite] evp_same_dest(4) [OF assms composite]
    have tag': "alg s' = S2N_HASH_MD5_SHA1" using tag composite by simp
    have both: "map_option (\<lambda>(rc, t, h, out1). (rc, out1))
        (do {
           ((r1, d1), hp1) \<leftarrow> EVP_DigestFinal_ex lib (evp_ctx s) hp;
           ((r2, d2), hp2) \<leftarrow> EVP_DigestFinal_ex lib (evp_md5_secondary_ctx s) hp1;
           Some (evp_digest_end (r1 AND r2) s hp2
                  (write_at (write_at out MD5_DIGEST_LENGTH d1) 0 d2))
         })
      = map_option (\<lambda>(rc, t, h, out1). (rc, out1))
        (do {
           ((r1, d1), hp1) \<leftarrow> EVP_DigestFinal_ex lib (evp_ctx s') hp';
           ((r2, d2), hp2) \<leftarrow> EVP_DigestFinal_ex lib (evp_md5_secondary_ctx s') hp1;
           Some (evp_digest_end (r1 AND r2) s' hp2
                  (write_at (write_at out MD5_DIGEST_LENGTH d1) 0 d2))
         })"
      using on_ctx_same [OF c, of ?fin]
    proof (elim disjE conjE exE)
      assume "on_ctx (evp_ctx s) hp ?fin = None" "on_ctx (evp_ctx s') hp' ?fin = None"
      then show ?thesis by (simp add: EVP_DigestFinal_ex_def)
    next
      fix r h1 h1'
      assume o: "on_ctx (evp_ctx s) hp ?fin = Some (r, h1)"
        "on_ctx (evp_ctx s') hp' ?fin = Some (r, h1')"
        and k: "\<forall>q. q \<noteq> evp_ctx s \<longrightarrow> content h1 q = content hp q"
        and k': "\<forall>q. q \<noteq> evp_ctx s' \<longrightarrow> content h1' q = content hp' q"
      have c2': "content h1 (evp_md5_secondary_ctx s) = content h1' (evp_md5_secondary_ctx s')"
        using k k' ne c2 by simp
      show ?thesis
        using on_ctx_same [OF c2', of ?fin] o
        by (cases r) (auto simp: EVP_DigestFinal_ex_def evp_digest_end_def)
    qed
    show ?thesis
      using both
      by (simp add: s2n_evp_hash_digest_def composite tag' digest_length_defs)
  qed
qed

lemma evp_updates_same:
  assumes "evp_same s hp s' hp'"
  shows "(evp_updates lib s hp ds = None \<and> evp_updates lib s' hp' ds = None)
         \<or> (\<exists>e t h t' h'. evp_updates lib s hp ds = Some (S2N_FAILURE e, t, h)
               \<and> evp_updates lib s' hp' ds = Some (S2N_FAILURE e, t', h'))
         \<or> (\<exists>t h t' h'. evp_updates lib s hp ds = Some (S2N_SUCCESS, t, h)
               \<and> evp_updates lib s' hp' ds = Some (S2N_SUCCESS, t', h')
               \<and> evp_same t h t' h')"
  using assms
proof (induction ds arbitrary: s hp s' hp')
  case Nil
  then show ?case by simp
next
  case (Cons d ds)
  from evp_same_update [OF Cons.prems, of lib d]
  show ?case
  proof (elim disjE conjE exE)
    assume "s2n_evp_hash_update lib s hp d = None" "s2n_evp_hash_update lib s' hp' d = None"
    then show ?thesis by simp
  next
    fix rc t h t' h'
    assume u: "s2n_evp_hash_update lib s hp d = Some (rc, t, h)"
      "s2n_evp_hash_update lib s' hp' d = Some (rc, t', h')"
      and same: "evp_same t h t' h'"
    show ?thesis
    proof (cases rc)
      case S2N_SUCCESS
      with u Cons.IH [OF same] show ?thesis by simp
    next
      case (S2N_FAILURE e)
      with u show ?thesis by simp
    qed
  qed
qed

lemma evp_run_same:
  assumes "evp_same s hp s' hp'"
  shows "evp_run lib s hp ds out sz = evp_run lib s' hp' ds out sz"
  using evp_updates_same [OF assms, of lib ds]
proof (elim disjE conjE exE)
  assume "evp_updates lib s hp ds = None" "evp_updates lib s' hp' ds = None"
  then show ?thesis by (simp add: evp_run_def)
next
  fix e t h t' h'
  assume "evp_updates lib s hp ds = Some (S2N_FAILURE e, t, h)"
    "evp_updates lib s' hp' ds = Some (S2N_FAILURE e, t', h')"
  then show ?thesis by (simp add: evp_run_def)
next
  fix t h t' h'
  assume u: "evp_updates lib s hp ds = Some (S2N_SUCCESS, t, h)"
    "evp_updates lib s' hp' ds = Some (S2N_SUCCESS, t', h')"
    and same: "evp_same t h t' h'"
  from evp_same_digest [OF same, of lib out sz]
  show ?thesis
    using u
    by (cases "s2n_evp_hash_digest lib t h out sz"; cases "s2n_evp_hash_digest lib t' h' out sz")
      (auto simp: evp_run_def)
qed

lemma evp_init_plain_md:
  assumes "a \<noteq> S2N_HASH_NONE" and "a \<noteq> S2N_HASH_MD5_SHA1" and "\<forall>n. a \<noteq> S2N_HASH_OTHER n"
  shows "\<exists>md. \<forall>s hp. s2n_evp_hash_init lib s hp a
           = map_option (evp_init_end s a) (EVP_DigestInit_ex lib (evp_ctx s) md hp)"
  using assms by (cases a) auto

lemma evp_init_same:
  assumes c: "evp_ctxs a (high_level s) hp = evp_ctxs a (high_level s') hp'"
    and ne: "a = S2N_HASH_MD5_SHA1 \<Longrightarrow> evp_md5_secondary_ctx s \<noteq> evp_ctx s"
    and ne': "a = S2N_HASH_MD5_SHA1 \<Longrightarrow> evp_md5_secondary_ctx s' \<noteq> evp_ctx s'"
  shows "(s2n_evp_hash_init lib s hp a = None \<and> s2n_evp_hash_init lib s' hp' a = None)
         \<or> (\<exists>e t h t' h'. s2n_evp_hash_init lib s hp a = Some (S2N_FAILURE e, t, h)
               \<and> s2n_evp_hash_init lib s' hp' a = Some (S2N_FAILURE e, t', h'))
         \<or> (\<exists>t h t' h'. s2n_evp_hash_init lib s hp a = Some (S2N_SUCCESS, t, h)
               \<and> s2n_evp_hash_init lib s' hp' a = Some (S2N_SUCCESS, t', h')
               \<and> evp_same t h t' h')"
proof -
  consider (none) "a = S2N_HASH_NONE" | (other) n where "a = S2N_HASH_OTHER n"
    | (composite) "a = S2N_HASH_MD5_SHA1"
    | (plain) "a \<noteq> S2N_HASH_NONE" "a \<noteq> S2N_HASH_MD5_SHA1" "\<forall>n. a \<noteq> S2N_HASH_OTHER n"
    by blast
  then show ?thesis
  proof cases
    case none
    then show ?thesis by (simp add: evp_init_end_def evp_same_def)
  next
    case other
    then show ?thesis by simp
  next
    case plain
    from evp_init_plain_md [OF plain, of lib] obtain md where
      i: "\<And>s hp. s2n_evp_hash_init lib s hp a
           = map_option (evp_init_end s a) (EVP_DigestInit_ex lib (evp_ctx s) md hp)"
      by blast
    have c0: "content hp (evp_ctx s) = content hp' (evp_ctx s')"
      using c unfolding evp_ctxs_plain [OF plain] by simp
    from on_ctx_same [OF c0, of "\<lambda>h. DigestInit_ex lib h md"]
    show ?thesis
    proof (elim disjE conjE exE)
      assume "on_ctx (evp_ctx s) hp (\<lambda>h. DigestInit_ex lib h md) = None"
        "on_ctx (evp_ctx s') hp' (\<lambda>h. DigestInit_ex lib h md) = None"
      then show ?thesis by (simp add: i EVP_DigestInit_ex_def)
    next
      fix r h1 h1'
      assume o: "on_ctx (evp_ctx s) hp (\<lambda>h. DigestInit_ex lib h md) = Some (r, h1)"
        "on_ctx (evp_ctx s') hp' (\<lambda>h. DigestInit_ex lib h md) = Some (r, h1')"
        and c1: "content h1 (evp_ctx s) = content h1' (evp_ctx s')"
      have "evp_same (s\<lparr>alg := a\<rparr>) h1 (s'\<lparr>alg := a\<rparr>) h1'"
        using c1 plain by (simp add: evp_same_def evp_ctxs_plain [OF plain])
      then show ?thesis
        using o by (simp add: i EVP_DigestInit_ex_def evp_init_end_def)
    qed
  next
    case composite
    have c0: "content hp (evp_ctx s) = content hp' (evp_ctx s')"
      and c2: "content hp (evp_md5_secondary_ctx s) = content hp' (evp_md5_secondary_ctx s')"
      using c unfolding composite by simp_all
    note n = ne [OF composite] ne' [OF composite]
    from on_ctx_same [OF c0, of "\<lambda>h. DigestInit_ex lib h EVP_sha1"]
    show ?thesis
    proof (elim disjE conjE exE)
      assume "on_ctx (evp_ctx s) hp (\<lambda>h. DigestInit_ex lib h EVP_sha1) = None"
        "on_ctx (evp_ctx s') hp' (\<lambda>h. DigestInit_ex lib h EVP_sha1) = None"
      then show ?thesis by (simp add: composite EVP_DigestInit_ex_def)
    next
      fix r h1 h1'
      assume o: "on_ctx (evp_ctx s) hp (\<lambda>h. DigestInit_ex lib h EVP_sha1) = Some (r, h1)"
        "on_ctx (evp_ctx s') hp' (\<lambda>h. DigestInit_ex lib h EVP_sha1) = Some (r, h1')"
        and c1: "content h1 (evp_ctx s) = content h1' (evp_ctx s')"
        and k: "\<forall>q. q \<noteq> evp_ctx s \<longrightarrow> content h1 q = content hp q"
        and k': "\<forall>q. q \<noteq> evp_ctx s' \<longrightarrow> content h1' q = content hp' q"
      have c2': "content h1 (evp_md5_secondary_ctx s) = content h1' (evp_md5_secondary_ctx s')"
        using k k' n c2 by simp
      from on_ctx_same [OF c2', of "\<lambda>h. DigestInit_ex lib h EVP_md5"]
      show ?thesis
      proof (elim disjE conjE exE)
        assume "on_ctx (evp_md5_secondary_ctx s) h1 (\<lambda>h. DigestInit_ex lib h EVP_md5) = None"
          "on_ctx (evp_md5_secondary_ctx s') h1' (\<lambda>h. DigestInit_ex lib h EVP_md5) = None"
        then show ?thesis using o by (simp add: composite EVP_DigestInit_ex_def)
      next
        fix r2 h2 h2'
        assume o2: "on_ctx (evp_md5_secondary_ctx s) h1 (\<lambda>h. DigestInit_ex lib h EVP_md5) = Some (r2, h2)"
          "on_ctx (evp_md5_secondary_ctx s') h1' (\<lambda>h. DigestInit_ex lib h EVP_md5) = Some (r2, h2')"
          and d2: "content h2 (evp_md5_secondary_ctx s) = content h2' (evp_md5_secondary_ctx s')"
          and m: "\<forall>q. q \<noteq> evp_md5_secondary_ctx s \<longrightarrow> content h2 q = content h1 q"
          and m': "\<forall>q. q \<noteq> evp_md5_secondary_ctx s' \<longrightarrow> content h2' q = content h1' q"
        have "content h2 (evp_ctx s) = content h2' (evp_ctx s')"
          using m m' n c1 by metis
        then have "evp_same (s\<lparr>alg := a\<rparr>) h2 (s'\<lparr>alg := a\<rparr>) h2'"
          using d2 composite n by (auto simp: evp_same_def)
        then show ?thesis
          using o o2 by (simp add: composite EVP_DigestInit_ex_def evp_init_end_def)
      qed
    qed
  qed
qed

text \<open>
  \<open>s2n_evp_hash_new\<close> with two free slots acquires two fresh handles.
\<close>

lemma s2n_evp_hash_new_fresh:
  assumes "avail hp0 = a1 # b1 # rest" and "a1 \<noteq> b1"
  shows "\<exists>s0 hp1. s2n_evp_hash_new lib state0 hp0 = (S2N_SUCCESS, s0, hp1)
           \<and> evp_ctx s0 = Some a1 \<and> evp_md5_secondary_ctx s0 = Some b1
           \<and> content hp1 (Some a1) = Some (MD_CTX_fresh lib)
           \<and> content hp1 (Some b1) = Some (MD_CTX_fresh lib)"
  using assms
  by (simp add: s2n_evp_hash_new_def S2N_EVP_MD_CTX_NEW_def set_evp_ctx_def
      set_evp_md5_secondary_ctx_def content_def)

text \<open>
  \<open>s2n_evp_hash_reset\<close> on live handles, with a library whose reset leaves the
  content of a fresh context: it is the init of a state whose selected handles hold
  fresh contents.
\<close>

lemma reset_allow_handles:
  assumes "(if c then s2n_hash_allow_md5_for_fips True state else Some (S2N_SUCCESS, state))
             = Some (rc, state1)"
  shows "rc = S2N_SUCCESS \<and> alg state1 = alg state \<and> evp_ctx state1 = evp_ctx state
         \<and> evp_md5_secondary_ctx state1 = evp_md5_secondary_ctx state"
  using assms by (auto simp: s2n_hash_allow_md5_for_fips_True split: if_splits)

lemma handle_state_reset_ctx:
  "evp_ctx (set_evp (handle_state_reset r (evp (high_level state))) state) = evp_ctx state"
  "evp_md5_secondary_ctx (set_evp (handle_state_reset r (evp (high_level state))) state)
     = evp_md5_secondary_ctx state"
  "alg (set_evp (handle_state_reset r (evp (high_level state))) state) = alg state"
  "evp_ctx (set_evp_md5_secondary (handle_state_reset r (evp_md5_secondary (high_level state1)))
              state1) = evp_ctx state1"
  "evp_md5_secondary_ctx
     (set_evp_md5_secondary (handle_state_reset r (evp_md5_secondary (high_level state1))) state1)
     = evp_md5_secondary_ctx state1"
  "alg (set_evp_md5_secondary (handle_state_reset r (evp_md5_secondary (high_level state1)))
          state1) = alg state1"
  by (simp_all add: set_evp_def set_evp_md5_secondary_def handle_state_reset_def)

lemma evp_reset_then_init:
  assumes fresh: "\<forall>h. snd (MD_CTX_reset lib h) = MD_CTX_fresh lib"
    and p: "evp_ctx state = Some p" "live hp p = Some h"
    and plain: "alg state \<noteq> S2N_HASH_MD5_SHA1 \<longrightarrow> fst (MD_CTX_reset lib h) \<noteq> 0"
    and comp: "alg state = S2N_HASH_MD5_SHA1 \<longrightarrow>
         (\<exists>q h2. evp_md5_secondary_ctx state = Some q \<and> q \<noteq> p \<and> live hp q = Some h2
                  \<and> fst (MD_CTX_reset lib h) AND fst (MD_CTX_reset lib h2) \<noteq> 0)"
  shows "\<exists>state1 hp1. s2n_evp_hash_reset lib True state hp
             = s2n_evp_hash_init lib state1 hp1 (alg state)
           \<and> evp_ctx state1 = Some p \<and> evp_md5_secondary_ctx state1 = evp_md5_secondary_ctx state
           \<and> content hp1 (Some p) = Some (MD_CTX_fresh lib)
           \<and> (alg state = S2N_HASH_MD5_SHA1 \<longrightarrow>
                content hp1 (evp_md5_secondary_ctx state) = Some (MD_CTX_fresh lib))"
proof -
  obtain r1 where r1: "MD_CTX_reset lib h = (r1, MD_CTX_fresh lib)"
    using fresh by (cases "MD_CTX_reset lib h") (metis snd_conv)
  let ?hp1 = "hp\<lparr>live := (live hp)(p \<mapsto> MD_CTX_fresh lib)\<rparr>"
  have R1: "S2N_EVP_MD_CTX_RESET lib (evp_ctx state) hp = Some (r1, ?hp1)"
    using p r1 by (simp add: S2N_EVP_MD_CTX_RESET_def on_ctx_def)
  let ?c = "alg state = S2N_HASH_MD5
              \<and> s2n_digest_is_md5_allowed_for_fips True (evp (high_level state))"
  let ?s1 = "set_evp (handle_state_reset r1 (evp (high_level state))) state"
  show ?thesis
  proof (cases "alg state = S2N_HASH_MD5_SHA1")
    case False
    let ?allow = "if ?c then s2n_hash_allow_md5_for_fips True ?s1 else Some (S2N_SUCCESS, ?s1)"
    obtain rc state1 where al: "?allow = Some (rc, state1)"
      by (cases ?allow) (auto simp: s2n_hash_allow_md5_for_fips_True split: if_splits)
    note st1 = reset_allow_handles [OF al, unfolded handle_state_reset_ctx]
    from plain r1 False have "r1 \<noteq> 0" by simp
    then have "s2n_evp_hash_reset lib True state hp = s2n_evp_hash_init lib state1 ?hp1 (alg state)"
      using False R1 al st1 by (simp add: s2n_evp_hash_reset_def)
    then show ?thesis
      using st1 p False
      by (intro exI [of _ state1] exI [of _ ?hp1]) (simp add: content_def)
  next
    case True
    with comp obtain q h2 where q: "evp_md5_secondary_ctx state = Some q" "q \<noteq> p"
      "live hp q = Some h2" "fst (MD_CTX_reset lib h) AND fst (MD_CTX_reset lib h2) \<noteq> 0"
      by blast
    obtain r2 where r2: "MD_CTX_reset lib h2 = (r2, MD_CTX_fresh lib)"
      using fresh by (cases "MD_CTX_reset lib h2") (metis snd_conv)
    let ?hp2 = "hp\<lparr>live := (live hp)(p \<mapsto> MD_CTX_fresh lib, q \<mapsto> MD_CTX_fresh lib)\<rparr>"
    let ?s2 = "set_evp_md5_secondary
                 (handle_state_reset r2 (evp_md5_secondary (high_level state))) ?s1"
    have R2: "S2N_EVP_MD_CTX_RESET lib (evp_md5_secondary_ctx state) ?hp1 = Some (r2, ?hp2)"
      using q r2 by (simp add: S2N_EVP_MD_CTX_RESET_def on_ctx_def)
    have nz: "r1 AND r2 \<noteq> 0" using q(4) r1 r2 by simp
    have s2: "alg ?s2 = alg state" "evp_ctx ?s2 = evp_ctx state"
      "evp_md5_secondary_ctx ?s2 = evp_md5_secondary_ctx state"
      by (simp_all add: set_evp_def set_evp_md5_secondary_def handle_state_reset_def)
    have "s2n_evp_hash_reset lib True state hp = s2n_evp_hash_init lib ?s2 ?hp2 (alg state)"
      using True R1 R2 nz by (simp add: s2n_evp_hash_reset_def s2)
    then show ?thesis
      using s2 p q True
      by (intro exI [of _ ?s2] exI [of _ ?hp2]) (simp add: content_def)
  qed
qed

lemma on_ctx_defined:
  assumes "content hp p \<noteq> None"
  shows "\<exists>r h1. on_ctx p hp f = Some (r, h1) \<and> content h1 p \<noteq> None
           \<and> (\<forall>q. q \<noteq> p \<longrightarrow> content h1 q = content hp q)"
proof -
  from assms obtain h where h: "content hp p = Some h" by auto
  from on_ctx_Some [OF h, of f] show ?thesis
    by (auto simp: content_upd)
qed

text \<open>
  On a state whose selected handles are live (and, for MD5\_SHA1, are two), update,
  digest and init have a defined result and the handles stay live.
\<close>

lemma evp_update_defined:
  assumes v: "list_all (\<lambda>c. c \<noteq> None) (evp_ctxs (alg s) (high_level s) hp)"
    and ne: "alg s = S2N_HASH_MD5_SHA1 \<Longrightarrow> evp_md5_secondary_ctx s \<noteq> evp_ctx s"
  shows "\<exists>rc h1. s2n_evp_hash_update lib s hp d = Some (rc, s, h1)
           \<and> list_all (\<lambda>c. c \<noteq> None) (evp_ctxs (alg s) (high_level s) h1)"
proof -
  consider (none) "alg s = S2N_HASH_NONE" | (other) n where "alg s = S2N_HASH_OTHER n"
    | (composite) "alg s = S2N_HASH_MD5_SHA1"
    | (plain) "alg s \<noteq> S2N_HASH_NONE" "alg s \<noteq> S2N_HASH_MD5_SHA1" "\<forall>n. alg s \<noteq> S2N_HASH_OTHER n"
    by blast
  then show ?thesis
  proof cases
    case none
    then show ?thesis by (simp add: s2n_evp_hash_update_def evp_update_end_def)
  next
    case other
    then show ?thesis by (simp add: s2n_evp_hash_update_def)
  next
    case plain
    have c: "content hp (evp_ctx s) \<noteq> None"
      using v unfolding evp_ctxs_plain [OF plain] by simp
    from on_ctx_defined [OF c, of "\<lambda>h. DigestUpdate lib h d"]
    obtain r h1 where o: "on_ctx (evp_ctx s) hp (\<lambda>h. DigestUpdate lib h d) = Some (r, h1)"
      and k: "content h1 (evp_ctx s) \<noteq> None"
      by blast
    show ?thesis
      using o k
      by (cases "r = 0")
        (auto simp: evp_update_plain [OF plain] evp_update_primary_def EVP_DigestUpdate_def
          evp_update_end_def evp_ctxs_plain [OF plain])
  next
    case composite
    have c: "content hp (evp_ctx s) \<noteq> None" "content hp (evp_md5_secondary_ctx s) \<noteq> None"
      using v unfolding composite by auto
    from on_ctx_defined [OF c(1), of "\<lambda>h. DigestUpdate lib h d"]
    obtain r1 h1 where o1: "on_ctx (evp_ctx s) hp (\<lambda>h. DigestUpdate lib h d) = Some (r1, h1)"
      and k1: "content h1 (evp_ctx s) \<noteq> None"
        "\<forall>q. q \<noteq> evp_ctx s \<longrightarrow> content h1 q = content hp q"
      by blast
    have c2: "content h1 (evp_md5_secondary_ctx s) \<noteq> None"
      using k1(2) ne [OF composite] c(2) by simp
    from on_ctx_defined [OF c2, of "\<lambda>h. DigestUpdate lib h d"]
    obtain r2 h2 where o2: "on_ctx (evp_md5_secondary_ctx s) h1 (\<lambda>h. DigestUpdate lib h d) = Some (r2, h2)"
      and k2: "content h2 (evp_md5_secondary_ctx s) \<noteq> None"
        "\<forall>q. q \<noteq> evp_md5_secondary_ctx s \<longrightarrow> content h2 q = content h1 q"
      by blast
    have "content h2 (evp_ctx s) \<noteq> None"
      using k2(2) k1(1) ne [OF composite] by metis
    then show ?thesis
      using o1 o2 k2(1)
      by (simp add: s2n_evp_hash_update_def composite EVP_DigestUpdate_def evp_update_end_def)
  qed
qed

lemma evp_updates_defined:
  assumes "list_all (\<lambda>c. c \<noteq> None) (evp_ctxs (alg s) (high_level s) hp)"
    and "alg s = S2N_HASH_MD5_SHA1 \<Longrightarrow> evp_md5_secondary_ctx s \<noteq> evp_ctx s"
  shows "\<exists>rc h1. evp_updates lib s hp ds = Some (rc, s, h1)
           \<and> list_all (\<lambda>c. c \<noteq> None) (evp_ctxs (alg s) (high_level s) h1)"
  using assms
proof (induction ds arbitrary: hp)
  case Nil
  then show ?case by simp
next
  case (Cons d ds)
  from evp_update_defined [OF Cons.prems, of lib d]
  obtain rc h1 where u: "s2n_evp_hash_update lib s hp d = Some (rc, s, h1)"
    and v1: "list_all (\<lambda>c. c \<noteq> None) (evp_ctxs (alg s) (high_level s) h1)"
    by blast
  show ?case
  proof (cases rc)
    case S2N_SUCCESS
    with u Cons.IH [OF v1 Cons.prems(2)] show ?thesis by simp
  next
    case (S2N_FAILURE e)
    with u v1 show ?thesis by simp
  qed
qed

lemma evp_digest_defined:
  assumes v: "list_all (\<lambda>c. c \<noteq> None) (evp_ctxs (alg s) (high_level s) hp)"
    and ne: "alg s = S2N_HASH_MD5_SHA1 \<Longrightarrow> evp_md5_secondary_ctx s \<noteq> evp_ctx s"
  shows "s2n_evp_hash_digest lib s hp out sz \<noteq> None"
proof -
  let ?fin = "\<lambda>h. let (r, d, h') = DigestFinal_ex lib h in ((r, d), h')"
  consider (none) "alg s = S2N_HASH_NONE" | (other) n where "alg s = S2N_HASH_OTHER n"
    | (composite) "alg s = S2N_HASH_MD5_SHA1"
    | (plain) "alg s \<noteq> S2N_HASH_NONE" "alg s \<noteq> S2N_HASH_MD5_SHA1" "\<forall>n. alg s \<noteq> S2N_HASH_OTHER n"
    by blast
  then show ?thesis
  proof cases
    case none
    then show ?thesis by (simp add: s2n_evp_hash_digest_def evp_digest_end_def)
  next
    case other
    then show ?thesis by (simp add: s2n_evp_hash_digest_def)
  next
    case plain
    have c: "content hp (evp_ctx s) \<noteq> None"
      using v unfolding evp_ctxs_plain [OF plain] by simp
    from on_ctx_defined [OF c, of ?fin]
    have "evp_digest_primary lib s hp out \<noteq> None"
      by (auto simp: evp_digest_primary_def EVP_DigestFinal_ex_def evp_digest_end_def)
    then show ?thesis
      unfolding evp_digest_plain [OF plain] by (simp split: sum.splits)
  next
    case composite
    have c: "content hp (evp_ctx s) \<noteq> None" "content hp (evp_md5_secondary_ctx s) \<noteq> None"
      using v unfolding composite by auto
    from on_ctx_defined [OF c(1), of ?fin]
    obtain r1 h1 where o1: "on_ctx (evp_ctx s) hp ?fin = Some (r1, h1)"
      and k1: "\<forall>q. q \<noteq> evp_ctx s \<longrightarrow> content h1 q = content hp q"
      by blast
    have c2: "content h1 (evp_md5_secondary_ctx s) \<noteq> None"
      using k1 ne [OF composite] c(2) by simp
    from on_ctx_defined [OF c2, of ?fin]
    obtain r2 h2 where o2: "on_ctx (evp_md5_secondary_ctx s) h1 ?fin = Some (r2, h2)"
      by blast
    show ?thesis
      using o1 o2
      by (cases r1; cases r2)
        (simp add: s2n_evp_hash_digest_def composite EVP_DigestFinal_ex_def digest_length_defs
          evp_digest_end_def)
  qed
qed

lemma evp_run_defined:
  assumes "list_all (\<lambda>c. c \<noteq> None) (evp_ctxs (alg s) (high_level s) hp)"
    and "alg s = S2N_HASH_MD5_SHA1 \<Longrightarrow> evp_md5_secondary_ctx s \<noteq> evp_ctx s"
  shows "evp_run lib s hp ds out sz \<noteq> None"
proof -
  from evp_updates_defined [OF assms, of lib ds]
  obtain rc h1 where u: "evp_updates lib s hp ds = Some (rc, s, h1)"
    and v1: "list_all (\<lambda>c. c \<noteq> None) (evp_ctxs (alg s) (high_level s) h1)"
    by blast
  from evp_digest_defined [OF v1 assms(2), of lib out sz]
  show ?thesis
    using u by (cases rc) (auto simp: evp_run_def)
qed

lemma evp_init_defined:
  assumes v: "list_all (\<lambda>c. c \<noteq> None) (evp_ctxs a (high_level s) hp)"
    and ne: "a = S2N_HASH_MD5_SHA1 \<Longrightarrow> evp_md5_secondary_ctx s \<noteq> evp_ctx s"
  shows "\<exists>rc t h1. s2n_evp_hash_init lib s hp a = Some (rc, t, h1)
           \<and> (rc = S2N_SUCCESS \<longrightarrow> alg t = a \<and> high_level t = high_level s
                 \<and> list_all (\<lambda>c. c \<noteq> None) (evp_ctxs a (high_level s) h1))"
proof -
  consider (none) "a = S2N_HASH_NONE" | (other) n where "a = S2N_HASH_OTHER n"
    | (composite) "a = S2N_HASH_MD5_SHA1"
    | (plain) "a \<noteq> S2N_HASH_NONE" "a \<noteq> S2N_HASH_MD5_SHA1" "\<forall>n. a \<noteq> S2N_HASH_OTHER n"
    by blast
  then show ?thesis
  proof cases
    case none
    then show ?thesis by (simp add: evp_init_end_def)
  next
    case other
    then show ?thesis by simp
  next
    case plain
    from evp_init_plain_md [OF plain, of lib] obtain md where
      i: "\<And>s hp. s2n_evp_hash_init lib s hp a
           = map_option (evp_init_end s a) (EVP_DigestInit_ex lib (evp_ctx s) md hp)"
      by blast
    have c: "content hp (evp_ctx s) \<noteq> None"
      using v unfolding evp_ctxs_plain [OF plain] by simp
    from on_ctx_defined [OF c, of "\<lambda>h. DigestInit_ex lib h md"]
    obtain r h1 where o: "on_ctx (evp_ctx s) hp (\<lambda>h. DigestInit_ex lib h md) = Some (r, h1)"
      and k: "content h1 (evp_ctx s) \<noteq> None"
      by blast
    show ?thesis
      using o k
      by (cases "r = 0")
        (auto simp: i EVP_DigestInit_ex_def evp_init_end_def evp_ctxs_plain [OF plain])
  next
    case composite
    have c: "content hp (evp_ctx s) \<noteq> None" "content hp (evp_md5_secondary_ctx s) \<noteq> None"
      using v unfolding composite by auto
    from on_ctx_defined [OF c(1), of "\<lambda>h. DigestInit_ex lib h EVP_sha1"]
    obtain r1 h1 where o1: "on_ctx (evp_ctx s) hp (\<lambda>h. DigestInit_ex lib h EVP_sha1) = Some (r1, h1)"
      and k1: "content h1 (evp_ctx s) \<noteq> None"
        "\<forall>q. q \<noteq> evp_ctx s \<longrightarrow> content h1 q = content hp q"
      by blast
    have c2: "content h1 (evp_md5_secondary_ctx s) \<noteq> None"
      using k1(2) ne [OF composite] c(2) by simp
    from on_ctx_defined [OF c2, of "\<lambda>h. DigestInit_ex lib h EVP_md5"]
    obtain r2 h2 where o2: "on_ctx (evp_md5_secondary_ctx s) h1 (\<lambda>h. DigestInit_ex lib h EVP_md5) = Some (r2, h2)"
      and k2: "content h2 (evp_md5_secondary_ctx s) \<noteq> None"
        "\<forall>q. q \<noteq> evp_md5_secondary_ctx s \<longrightarrow> content h2 q = content h1 q"
      by blast
    have "content h2 (evp_ctx s) \<noteq> None"
      using k2(2) k1(1) ne [OF composite] by metis
    then show ?thesis
      using o1 o2 k2(1)
      by (simp add: composite EVP_DigestInit_ex_def evp_init_end_def)
  qed
qed

lemma evp_reset_equals_fresh_init_run:
  assumes fresh: "\<forall>h. snd (MD_CTX_reset lib h) = MD_CTX_fresh lib"
    and p: "evp_ctx estate = Some p" "live hp p = Some h"
    and plain: "alg estate \<noteq> S2N_HASH_MD5_SHA1 \<longrightarrow> fst (MD_CTX_reset lib h) \<noteq> 0"
    and comp: "alg estate = S2N_HASH_MD5_SHA1 \<longrightarrow>
         (\<exists>q h2. evp_md5_secondary_ctx estate = Some q \<and> q \<noteq> p \<and> live hp q = Some h2
                  \<and> fst (MD_CTX_reset lib h) AND fst (MD_CTX_reset lib h2) \<noteq> 0)"
    and av: "avail hp0 = a1 # b1 # rest" "a1 \<noteq> b1"
  shows "\<exists>s0 hp1 rc t u t' u'.
           s2n_evp_hash_new lib estate0 hp0 = (S2N_SUCCESS, s0, hp1)
           \<and> s2n_evp_hash_reset lib True estate hp = Some (rc, t, u)
           \<and> s2n_evp_hash_init lib s0 hp1 (alg estate) = Some (rc, t', u')
           \<and> (rc = S2N_SUCCESS \<longrightarrow>
                 evp_run lib t u ds out sz = evp_run lib t' u' ds out sz
                 \<and> evp_run lib t u ds out sz \<noteq> None)"
proof -
  from s2n_evp_hash_new_fresh [OF av, of lib estate0]
  obtain s0 hp1 where new: "s2n_evp_hash_new lib estate0 hp0 = (S2N_SUCCESS, s0, hp1)"
    and n0: "evp_ctx s0 = Some a1" "evp_md5_secondary_ctx s0 = Some b1"
      "content hp1 (Some a1) = Some (MD_CTX_fresh lib)"
      "content hp1 (Some b1) = Some (MD_CTX_fresh lib)"
    by blast
  from evp_reset_then_init [OF fresh p plain comp]
  obtain state1 hp2 where r: "s2n_evp_hash_reset lib True estate hp
             = s2n_evp_hash_init lib state1 hp2 (alg estate)"
    and r0: "evp_ctx state1 = Some p"
      "evp_md5_secondary_ctx state1 = evp_md5_secondary_ctx estate"
      "content hp2 (Some p) = Some (MD_CTX_fresh lib)"
      "alg estate = S2N_HASH_MD5_SHA1 \<longrightarrow>
                content hp2 (evp_md5_secondary_ctx estate) = Some (MD_CTX_fresh lib)"
    by blast
  have c: "evp_ctxs (alg estate) (high_level state1) hp2 = evp_ctxs (alg estate) (high_level s0) hp1"
    using r0 n0 by (cases "alg estate") simp_all
  have v: "list_all (\<lambda>c. c \<noteq> None) (evp_ctxs (alg estate) (high_level state1) hp2)"
    using r0 by (cases "alg estate") simp_all
  have ne: "alg estate = S2N_HASH_MD5_SHA1 \<Longrightarrow> evp_md5_secondary_ctx state1 \<noteq> evp_ctx state1"
    using comp r0 by auto
  have ne': "alg estate = S2N_HASH_MD5_SHA1 \<Longrightarrow> evp_md5_secondary_ctx s0 \<noteq> evp_ctx s0"
    using n0 av(2) by simp
  from evp_init_defined [OF v ne, of lib]
  obtain rc t u where i: "s2n_evp_hash_init lib state1 hp2 (alg estate) = Some (rc, t, u)"
    and ok: "rc = S2N_SUCCESS \<longrightarrow> alg t = alg estate \<and> high_level t = high_level state1
                 \<and> list_all (\<lambda>c. c \<noteq> None) (evp_ctxs (alg estate) (high_level state1) u)"
    by blast
  from evp_init_same [OF c ne ne', of lib] i
  obtain t' u' where i': "s2n_evp_hash_init lib s0 hp1 (alg estate) = Some (rc, t', u')"
    and same: "rc = S2N_SUCCESS \<longrightarrow> evp_same t u t' u'"
    by (cases rc) auto
  have run: "rc = S2N_SUCCESS \<longrightarrow>
          evp_run lib t u ds out sz = evp_run lib t' u' ds out sz
          \<and> evp_run lib t u ds out sz \<noteq> None"
  proof
    assume s: "rc = S2N_SUCCESS"
    with ok have t: "alg t = alg estate" "high_level t = high_level state1"
      "list_all (\<lambda>c. c \<noteq> None) (evp_ctxs (alg t) (high_level t) u)"
      by simp_all
    have "alg t = S2N_HASH_MD5_SHA1 \<Longrightarrow> evp_md5_secondary_ctx t \<noteq> evp_ctx t"
      using ne t by simp
    from evp_run_defined [OF t(3) this, of lib ds out sz]
      evp_run_same [of t u t' u' lib ds out sz] same s
    show "evp_run lib t u ds out sz = evp_run lib t' u' ds out sz
          \<and> evp_run lib t u ds out sz \<noteq> None"
      by simp
  qed
  have reset: "s2n_evp_hash_reset lib True estate hp = Some (rc, t, u)"
    using r i by simp
  from new reset i' run show ?thesis by blast
qed

text \<open>
  C8. For every algorithm tag and every sequence of updates \<open>ds\<close>, a run after reset
  yields what the same run yields on a state that is new and initialised with the same
  tag.
  \<^item> Low-level backend: reset returns the code that init returns on the new state (for a
    tag outside the enumeration both fail), and when it succeeds the two runs return the
    same code and the same bytes.
  \<^item> EVP backend (FIPS mode), for a state whose primary handle is live and, for
    MD5\_SHA1, whose secondary handle is another live one, a library whose
    \<open>EVP_MD_CTX_reset\<close> succeeds and leaves the content of a new context, and a heap on
    which \<open>s2n_evp_hash_new\<close> can acquire two handles: reset returns the code that init
    returns on the new state, and when it succeeds the two runs are defined and return the
    same code and the same bytes.
\<close>

theorem reset_equals_fresh_init:
  assumes "\<forall>h. snd (MD_CTX_reset lib h) = MD_CTX_fresh lib"
    and "evp_ctx estate = Some p" and "live hp p = Some h"
    and "alg estate \<noteq> S2N_HASH_MD5_SHA1 \<longrightarrow> fst (MD_CTX_reset lib h) \<noteq> 0"
    and "alg estate = S2N_HASH_MD5_SHA1 \<longrightarrow>
         (\<exists>q h2. evp_md5_secondary_ctx estate = Some q \<and> q \<noteq> p \<and> live hp q = Some h2
                  \<and> fst (MD_CTX_reset lib h) AND fst (MD_CTX_reset lib h2) \<noteq> 0)"
    and "avail hp0 = a1 # b1 # rest" and "a1 \<noteq> b1"
  shows "fst (s2n_low_level_hash_reset lib state)
           = fst (s2n_low_level_hash_init lib (snd (s2n_low_level_hash_new state0)) (alg state))
         \<and> (fst (s2n_low_level_hash_reset lib state) = S2N_SUCCESS \<longrightarrow>
              low_level_run lib (snd (s2n_low_level_hash_reset lib state)) ds out sz
              = low_level_run lib
                  (snd (s2n_low_level_hash_init lib (snd (s2n_low_level_hash_new state0))
                     (alg state)))
                  ds out sz)
         \<and> (\<exists>s0 hp1 rc t u t' u'.
               s2n_evp_hash_new lib estate0 hp0 = (S2N_SUCCESS, s0, hp1)
               \<and> s2n_evp_hash_reset lib True estate hp = Some (rc, t, u)
               \<and> s2n_evp_hash_init lib s0 hp1 (alg estate) = Some (rc, t', u')
               \<and> (rc = S2N_SUCCESS \<longrightarrow>
                     evp_run lib t u ds out sz = evp_run lib t' u' ds out sz
                     \<and> evp_run lib t u ds out sz \<noteq> None))"
  using low_level_reset_equals_fresh_init [of lib state state0 ds out sz]
    evp_reset_equals_fresh_init_run [OF assms, of estate0 ds out sz]
  by blast

lemma known_answers_abc:
  "known_answers EVP_md5 abc = Some md5_abc" "known_answers EVP_sha1 abc = Some sha1_abc"
  by (simp_all add: known_answers_def)

text \<open>
  MD5\_SHA1 states of both backends that were fed \<open>abc\<close>: after reset, a run that
  feeds \<open>abc\<close> yields the digest of \<open>abc\<close> alone, as on a new state.
\<close>

theorem reset_equals_fresh_init_witness:
  "low_level_run kat_lib (snd (s2n_low_level_hash_reset kat_lib (low_level_src S2N_HASH_MD5_SHA1)))
      [abc] (replicate 36 0) 36
     = (S2N_SUCCESS, md5_abc @ sha1_abc)
   \<and> low_level_run kat_lib
       (snd (s2n_low_level_hash_init kat_lib (snd (s2n_low_level_hash_new blank_state))
          S2N_HASH_MD5_SHA1))
       [abc] (replicate 36 0) 36
     = (S2N_SUCCESS, md5_abc @ sha1_abc)
   \<and> (case s2n_evp_hash_reset kat_lib True (fst (evp_src S2N_HASH_MD5_SHA1))
            (snd (evp_src S2N_HASH_MD5_SHA1)) of
         None \<Rightarrow> False
       | Some (rc, t, u) \<Rightarrow>
           rc = S2N_SUCCESS
           \<and> evp_run kat_lib t u [abc] (replicate 36 0) 36
               = Some (S2N_SUCCESS, md5_abc @ sha1_abc))
   \<and> (case s2n_evp_hash_new kat_lib blank_state blank_heap of
         (rc0, s0, hp1) \<Rightarrow>
           rc0 = S2N_SUCCESS
           \<and> (case s2n_evp_hash_init kat_lib s0 hp1 S2N_HASH_MD5_SHA1 of
                 None \<Rightarrow> False
               | Some (rc, t, u) \<Rightarrow>
                   rc = S2N_SUCCESS
                   \<and> evp_run kat_lib t u [abc] (replicate 36 0) 36
                       = Some (S2N_SUCCESS, md5_abc @ sha1_abc)))"
proof -
  let ?out = "replicate 36 (0::byte)"
  let ?src = "low_level_src S2N_HASH_MD5_SHA1"
  let ?fresh = "s2n_low_level_hash_init kat_lib (snd (s2n_low_level_hash_new blank_state))
                  S2N_HASH_MD5_SHA1"
  let ?e = "fst (evp_src S2N_HASH_MD5_SHA1)"
  let ?hp = "snd (evp_src S2N_HASH_MD5_SHA1)"
  have len: "length md5_abc = 16" "length sha1_abc = 20"
    by (simp_all add: md5_abc_def sha1_abc_def)
  have lib: "\<forall>h. snd (MD_CTX_reset kat_lib h) = MD_CTX_fresh kat_lib"
    "fst (MD_CTX_reset kat_lib (Some EVP_sha1, abc))
       AND fst (MD_CTX_reset kat_lib (Some EVP_md5, abc)) \<noteq> 0"
    by (simp_all add: kat_lib_def table_lib_def)
  have h4: "alg ?e \<noteq> S2N_HASH_MD5_SHA1
              \<longrightarrow> fst (MD_CTX_reset kat_lib (Some EVP_sha1, abc)) \<noteq> 0"
    by (simp add: evp_src_md5_sha1)
  have h5: "alg ?e = S2N_HASH_MD5_SHA1 \<longrightarrow>
         (\<exists>q h2. evp_md5_secondary_ctx ?e = Some q \<and> q \<noteq> 0 \<and> live ?hp q = Some h2
                  \<and> fst (MD_CTX_reset kat_lib (Some EVP_sha1, abc))
                       AND fst (MD_CTX_reset kat_lib h2) \<noteq> 0)"
    using lib(2) by (simp add: evp_src_md5_sha1 blank_state_def)
  have h2: "evp_ctx ?e = Some 0"
    by (simp add: evp_src_md5_sha1 blank_state_def)
  have h6: "avail blank_heap = 0 # Suc 0 # [2, 3]" "(0::nat) \<noteq> Suc 0"
    by (simp_all add: blank_heap_def)
  note w = reset_equals_fresh_init
    [where lib = kat_lib and state = ?src and ?state0.0 = blank_state and ds = "[abc]"
       and out = ?out and sz = 36 and ?estate0.0 = blank_state,
     OF lib(1) h2 evp_src_md5_sha1(2) h4 h5 h6]
  have fresh_ll: "?fresh = (S2N_SUCCESS,
      blank_state\<lparr>alg := S2N_HASH_MD5_SHA1\<rparr>)"
    by (simp add: s2n_low_level_hash_new_def low_level_init_end_def kat_lib_def table_lib_def
        blank_state_def)
  have run_ll: "low_level_run kat_lib (blank_state\<lparr>alg := S2N_HASH_MD5_SHA1\<rparr>) [abc] ?out 36
      = (S2N_SUCCESS, md5_abc @ sha1_abc)"
    by (simp add: low_level_run_def s2n_low_level_hash_update_def low_level_update_end_def
        s2n_low_level_hash_digest_def low_level_digest_end_def write_at_def len
        digest_length_defs known_answers_abc kat_lib_def table_lib_def blank_state_def)
  have tag_ll: "alg ?src = S2N_HASH_MD5_SHA1"
    by (simp add: low_level_src_md5_sha1)
  from w have w1: "fst (s2n_low_level_hash_reset kat_lib ?src) = fst ?fresh"
    and w2: "fst (s2n_low_level_hash_reset kat_lib ?src) = S2N_SUCCESS \<longrightarrow>
              low_level_run kat_lib (snd (s2n_low_level_hash_reset kat_lib ?src)) [abc] ?out 36
              = low_level_run kat_lib (snd ?fresh) [abc] ?out 36"
    unfolding tag_ll by blast+
  have b: "low_level_run kat_lib (snd ?fresh) [abc] ?out 36 = (S2N_SUCCESS, md5_abc @ sha1_abc)"
    unfolding fresh_ll snd_conv by (rule run_ll)
  have "fst (s2n_low_level_hash_reset kat_lib ?src) = S2N_SUCCESS"
    unfolding w1 fresh_ll fst_conv by (rule refl)
  with w2 b have a: "low_level_run kat_lib (snd (s2n_low_level_hash_reset kat_lib ?src)) [abc] ?out 36
             = (S2N_SUCCESS, md5_abc @ sha1_abc)"
    by (simp only:)
  have d: "case s2n_evp_hash_new kat_lib blank_state blank_heap of
         (rc0, s0, hp1) \<Rightarrow>
           rc0 = S2N_SUCCESS
           \<and> (case s2n_evp_hash_init kat_lib s0 hp1 S2N_HASH_MD5_SHA1 of
                 None \<Rightarrow> False
               | Some (rc, t, u) \<Rightarrow>
                   rc = S2N_SUCCESS
                   \<and> evp_run kat_lib t u [abc] ?out 36
                       = Some (S2N_SUCCESS, md5_abc @ sha1_abc))"
    by (simp add: s2n_evp_hash_new_def S2N_EVP_MD_CTX_NEW_def blank_heap_def set_evp_ctx_def
        set_evp_md5_secondary_ctx_def EVP_DigestInit_ex_def on_ctx_def evp_init_end_def
        evp_run_def s2n_evp_hash_update_def EVP_DigestUpdate_def evp_update_end_def
        s2n_evp_hash_digest_def EVP_DigestFinal_ex_def evp_digest_end_def write_at_def len
        digest_length_defs known_answers_abc kat_lib_def table_lib_def blank_state_def)
  from w obtain s0 hp1 rc t u t' u' where
    new: "s2n_evp_hash_new kat_lib blank_state blank_heap = (S2N_SUCCESS, s0, hp1)"
    and reset: "s2n_evp_hash_reset kat_lib True ?e ?hp = Some (rc, t, u)"
    and init: "s2n_evp_hash_init kat_lib s0 hp1 (alg ?e) = Some (rc, t', u')"
    and run: "rc = S2N_SUCCESS \<longrightarrow>
                evp_run kat_lib t u [abc] ?out 36 = evp_run kat_lib t' u' [abc] ?out 36"
    by blast
  have tag: "alg ?e = S2N_HASH_MD5_SHA1" by (simp add: evp_src_md5_sha1)
  from d have "rc = S2N_SUCCESS
    \<and> evp_run kat_lib t' u' [abc] ?out 36 = Some (S2N_SUCCESS, md5_abc @ sha1_abc)"
    unfolding new using init unfolding tag by (simp only: prod.case option.case)
  with run reset have c: "case s2n_evp_hash_reset kat_lib True ?e ?hp of
         None \<Rightarrow> False
       | Some (rc, t, u) \<Rightarrow>
           rc = S2N_SUCCESS
           \<and> evp_run kat_lib t u [abc] ?out 36 = Some (S2N_SUCCESS, md5_abc @ sha1_abc)"
    by simp
  from a b c d show ?thesis by blast
qed

end
